theory Spec2Isabelle
  imports Complex_Main
begin

section \<open>NumPy values\<close>

text \<open>
  The source (\<^verbatim>\<open>src/topmodel.py\<close>) computes with IEEE doubles held in NumPy arrays.
  The embedding idealises a double as an exact real or the value \<open>NaN\<close>, which the
  source uses as the marker of a cell outside the catchment. The infinities are not
  represented: an operation that IEEE arithmetic answers with an infinity (division by
  zero, the logarithm of zero, the tangent at a pole, an overflow) answers \<open>NaN\<close> here,
  and the theorems that pass through such an operation state the side condition that
  keeps it finite.

  The arithmetic of the first model below is exact. Where a property is decided by the
  rounding of doubles, the section on double arithmetic gives the timestep a second
  time, with the result of every operation rounded to the nearest double.
\<close>

datatype npfloat = NaN | Fin real

instantiation npfloat :: "{plus, minus, uminus, times}"
begin

fun plus_npfloat :: "npfloat \<Rightarrow> npfloat \<Rightarrow> npfloat" where
  "plus_npfloat (Fin a) (Fin b) = Fin (a + b)"
| "plus_npfloat _ _ = NaN"

fun minus_npfloat :: "npfloat \<Rightarrow> npfloat \<Rightarrow> npfloat" where
  "minus_npfloat (Fin a) (Fin b) = Fin (a - b)"
| "minus_npfloat _ _ = NaN"

fun times_npfloat :: "npfloat \<Rightarrow> npfloat \<Rightarrow> npfloat" where
  "times_npfloat (Fin a) (Fin b) = Fin (a * b)"
| "times_npfloat _ _ = NaN"

fun uminus_npfloat :: "npfloat \<Rightarrow> npfloat" where
  "uminus_npfloat (Fin a) = Fin (- a)"
| "uminus_npfloat NaN = NaN"

instance ..

end

fun fdiv :: "npfloat \<Rightarrow> npfloat \<Rightarrow> npfloat" where
  "fdiv (Fin a) (Fin b) = (if b = 0 then NaN else Fin (a / b))"
| "fdiv _ _ = NaN"

fun fexp :: "npfloat \<Rightarrow> npfloat" where
  "fexp (Fin a) = Fin (exp a)"
| "fexp NaN = NaN"

fun flog :: "npfloat \<Rightarrow> npfloat" where
  "flog (Fin a) = (if 0 < a then Fin (ln a) else NaN)"
| "flog NaN = NaN"

fun ftan :: "npfloat \<Rightarrow> npfloat" where
  "ftan (Fin a) = (if cos a = 0 then NaN else Fin (tan a))"
| "ftan NaN = NaN"

fun radians :: "npfloat \<Rightarrow> npfloat" where
  "radians (Fin a) = Fin (a * pi / 180)"
| "radians NaN = NaN"

text \<open>Comparisons with \<open>NaN\<close> are false, as in NumPy.\<close>

fun flt :: "npfloat \<Rightarrow> npfloat \<Rightarrow> bool" where
  "flt (Fin a) (Fin b) = (a < b)"
| "flt _ _ = False"

fun fle :: "npfloat \<Rightarrow> npfloat \<Rightarrow> bool" where
  "fle (Fin a) (Fin b) = (a \<le> b)"
| "fle _ _ = False"

text \<open>\<^verbatim>\<open>eps = np.finfo(float).eps\<close>, the machine epsilon of a double.\<close>

definition eps :: real where
  "eps = 1 / 2 ^ 52"

datatype py_error =
    ZeroDivisionError
  | IndexError
  | ValueError
  | ConfigurationError  \<comment> \<open>named by the specification only; no path of the source raises it\<close>

section \<open>Grids\<close>

text \<open>A two-dimensional array is the list of its rows; \<^verbatim>\<open>len\<close> of it is the number of rows.\<close>

type_synonym grid = "npfloat list list"

definition cells :: "grid \<Rightarrow> npfloat list" where
  "cells g = concat g"

definition gmap :: "(npfloat \<Rightarrow> npfloat) \<Rightarrow> grid \<Rightarrow> grid" where
  "gmap f g = map (map f) g"

definition same_shape :: "grid \<Rightarrow> grid \<Rightarrow> bool" where
  "same_shape g h = (map length g = map length h)"

text \<open>Element-wise product of two arrays of one shape (the caller checks the shape).\<close>

definition gmul :: "grid \<Rightarrow> grid \<Rightarrow> grid" where
  "gmul g h = map2 (map2 (*)) g h"

definition gdiv :: "grid \<Rightarrow> grid \<Rightarrow> grid" where
  "gdiv g h = map2 (map2 fdiv) g h"

definition full_like :: "grid \<Rightarrow> real \<Rightarrow> grid" where
  "full_like g v = gmap (\<lambda>_. Fin v) g"

fun fin_values :: "npfloat list \<Rightarrow> real list" where
  "fin_values [] = []"
| "fin_values (NaN # cs) = fin_values cs"
| "fin_values (Fin v # cs) = v # fin_values cs"

text \<open>\<^verbatim>\<open>np.nansum\<close>: the sum of the cells that are not \<open>NaN\<close> (0 when there is none).\<close>

definition nansum :: "grid \<Rightarrow> real" where
  "nansum g = sum_list (fin_values (cells g))"

text \<open>\<^verbatim>\<open>np.nanmean\<close>: the mean of the cells that are not \<open>NaN\<close>, \<open>NaN\<close> when there is none.\<close>

definition nanmean :: "grid \<Rightarrow> npfloat" where
  "nanmean g =
     (let vs = fin_values (cells g)
      in if vs = [] then NaN else Fin (sum_list vs / real (length vs)))"

text \<open>
  \<^verbatim>\<open>np.percentile(a, q)\<close> with the default linear interpolation, on a one-dimensional
  sample without \<open>NaN\<close>. A percentile outside \<open>[0, 100]\<close> is a \<^verbatim>\<open>ValueError\<close>. On an
  empty sample NumPy fails where it reads the last element of the sorted sample
  (\<^verbatim>\<open>IndexError: index -1 is out of bounds for axis 0 with size 0\<close>); that is what the
  model returns. On a sample of \<open>n > 0\<close> elements it interpolates linearly at the position
  \<open>q / 100 * (n - 1)\<close> of the sorted sample.
\<close>

definition np_percentile :: "real list \<Rightarrow> real \<Rightarrow> py_error + real" where
  "np_percentile xs q =
     (if q < 0 \<or> 100 < q then Inl ValueError
      else if xs = [] then Inl IndexError
      else
        let srt = sort xs;
            n = length xs;
            h = q / 100 * real (n - 1);
            lo = nat \<lfloor>h\<rfloor>;
            hi = min (lo + 1) (n - 1)
        in Inr (srt ! lo + (h - real lo) * (srt ! hi - srt ! lo)))"

section \<open>The model object\<close>

text \<open>The parameter dictionary \<^verbatim>\<open>pp\<close>, with the keys the constructor reads.\<close>

record params =
  pp_dt :: real
  pp_ko :: real
  pp_m :: real
  pp_twi_cutoff :: real
  pp_so :: real
  pp_cmask :: grid
  pp_flowacc :: grid
  pp_slope :: grid

text \<open>The attributes of a \<^verbatim>\<open>Topmodel_Homogenous\<close> object (\<^verbatim>\<open>self.S\<close> is \<open>self_S\<close>, and so on).\<close>

record topmodel =
  self_dt :: real
  self_CellArea :: nat
  self_CatchmentArea :: nat
  self_qr :: grid
  self_a :: grid
  self_slope :: grid
  self_M :: real
  self_To :: real
  self_xi :: grid
  self_X :: real
  self_Qo :: real
  self_S :: npfloat
  self_has_results :: bool

text \<open>\<^verbatim>\<open>local_s\<close>: \<^verbatim>\<open>s = Smean + self.M*(self.X - self.xi)\<close>.\<close>

definition local_s :: "topmodel \<Rightarrow> npfloat \<Rightarrow> grid" where
  "local_s st Smean = gmap (\<lambda>x. Smean + Fin (self_M st) * (Fin (self_X st) - x)) (self_xi st)"

text \<open>\<^verbatim>\<open>subsurfaceflow\<close>: \<^verbatim>\<open>Qb = self.Qo*np.exp(-self.S / (self.M + eps))\<close>.\<close>

definition subsurfaceflow :: "topmodel \<Rightarrow> npfloat" where
  "subsurfaceflow st = Fin (self_Qo st) * fexp (fdiv (- self_S st) (Fin (self_M st + eps)))"

text \<open>
  The wetness index before the cutoff:
  \<^verbatim>\<open>xi = np.log(self.a / dx / (np.tan(slope_rad) + eps))\<close>.
\<close>

definition wetness_index :: "real \<Rightarrow> grid \<Rightarrow> grid \<Rightarrow> grid" where
  "wetness_index dx a slope_rad =
     gmap flog (gdiv (gmap (\<lambda>x. fdiv x (Fin dx)) a)
                     (gmap (\<lambda>t. ftan t + Fin eps) slope_rad))"

text \<open>\<^verbatim>\<open>xi[xi > 0]\<close>: the strictly positive cells, in row-major order.\<close>

definition positive_values :: "grid \<Rightarrow> real list" where
  "positive_values g = filter (\<lambda>v. 0 < v) (fin_values (cells g))"

text \<open>\<^verbatim>\<open>xi[xi > clim] = clim\<close>.\<close>

definition apply_cutoff :: "real \<Rightarrow> grid \<Rightarrow> grid" where
  "apply_cutoff clim g = gmap (\<lambda>x. if flt (Fin clim) x then Fin clim else x) g"

text \<open>\<^verbatim>\<open>s[s < 0] = 0.0\<close>.\<close>

definition clamp_negative :: "grid \<Rightarrow> grid" where
  "clamp_negative g = gmap (\<lambda>x. if flt x (Fin 0) then Fin 0 else x) g"

text \<open>
  The constructor \<^verbatim>\<open>__init__(self, pp, S_initial=None, outputs=False)\<close>. \<open>S_initial\<close>
  is Python's \<^verbatim>\<open>None\<close> or a float; \<^verbatim>\<open>not S_initial\<close> holds for \<^verbatim>\<open>None\<close> and for \<open>0.0\<close>.
  The arrays of \<open>pp\<close> are multiplied element by element, which NumPy refuses with a
  \<^verbatim>\<open>ValueError\<close> when the shapes do not fit (the model takes grids of one shape;
  broadcasting of smaller arrays is not modelled). \<^verbatim>\<open>CatchmentArea\<close> is a Python
  \<^verbatim>\<open>int\<close>, so \<^verbatim>\<open>1.0 / self.CatchmentArea\<close> raises \<^verbatim>\<open>ZeroDivisionError\<close> at zero.
  \<^verbatim>\<open>local_s\<close> is called before \<^verbatim>\<open>self.S\<close> exists; it does not read it.
\<close>

definition Topmodel_init :: "params \<Rightarrow> real option \<Rightarrow> bool \<Rightarrow> py_error + topmodel" where
  "Topmodel_init pp S_initial outputs =
     (let S_initial = (case S_initial of
                         None \<Rightarrow> pp_so pp
                       | Some v \<Rightarrow> if v = 0 then pp_so pp else v);
          dt = pp_dt pp;
          cmask = pp_cmask pp;
          flowacc = pp_flowacc pp;
          slope = pp_slope pp;
          CellArea = length cmask * 16;
          dx = sqrt (real CellArea);
          CatchmentArea = length (filter (\<lambda>c. c = Fin 1) (cells cmask)) * CellArea;
          qr = full_like cmask 0
      in if same_shape flowacc cmask \<and> same_shape slope cmask
         then
           let a = gmul flowacc cmask;
               slope = gmul slope cmask;
               M = pp_m pp;
               To = pp_ko pp * dt;
               slope_rad = gmap radians slope;
               xi = wetness_index dx a slope_rad
           in case np_percentile (positive_values xi) (pp_twi_cutoff pp) of
                Inl e \<Rightarrow> Inl e
              | Inr clim \<Rightarrow>
                  let xi = apply_cutoff clim xi
                  in if CatchmentArea = 0 then Inl ZeroDivisionError
                     else
                       let X = 1 / real CatchmentArea
                                 * nansum (gmap (\<lambda>x. x * Fin (real CellArea)) xi);
                           Qo = To * exp (- X);
                           st = \<lparr> self_dt = dt, self_CellArea = CellArea,
                                  self_CatchmentArea = CatchmentArea, self_qr = qr,
                                  self_a = a, self_slope = slope, self_M = M,
                                  self_To = To, self_xi = xi, self_X = X, self_Qo = Qo,
                                  self_S = NaN, self_has_results = outputs \<rparr>;
                           s = clamp_negative (local_s st (Fin S_initial))
                       in Inr (st \<lparr> self_S := nanmean s \<rparr>)
         else Inl ValueError)"

section \<open>One timestep\<close>

text \<open>The local variables of \<^verbatim>\<open>run_timestep\<close>, in the order the source assigns them.\<close>

record step_vars =
  v_So :: npfloat       \<comment> \<open>\<^verbatim>\<open>So = self.S\<close>\<close>
  v_Qb :: npfloat       \<comment> \<open>\<^verbatim>\<open>Qb = self.subsurfaceflow()\<close>\<close>
  v_S1 :: npfloat       \<comment> \<open>\<^verbatim>\<open>S = So + Qb - R\<close>\<close>
  v_s :: grid           \<comment> \<open>\<^verbatim>\<open>s = self.local_s(S)\<close>\<close>
  v_qr :: grid          \<comment> \<open>\<^verbatim>\<open>self.qr = -s; self.qr[self.qr < 0] = 0.0\<close>\<close>
  v_Qr :: npfloat       \<comment> \<open>\<^verbatim>\<open>Qr = np.nansum(self.qr)*self.CellArea / self.CatchmentArea\<close>\<close>
  v_S :: npfloat        \<comment> \<open>\<^verbatim>\<open>S = S + Qr\<close>\<close>
  v_fsat :: "py_error + real"  \<comment> \<open>\<^verbatim>\<open>fsat = len(ix[0])*self.CellArea / self.CatchmentArea\<close>\<close>
  v_mbe :: npfloat      \<comment> \<open>\<^verbatim>\<open>mbe = dS - dF\<close>\<close>

text \<open>
  The first \<^verbatim>\<open>s = self.local_s(So)\<close> is overwritten before it is read and has no
  counterpart here.
  \<^verbatim>\<open>Qr\<close> is a NumPy double divided by a Python \<^verbatim>\<open>int\<close>, which does not raise at zero;
  \<^verbatim>\<open>fsat\<close> is a quotient of Python \<^verbatim>\<open>int\<close>s, which raises \<^verbatim>\<open>ZeroDivisionError\<close>.
\<close>

definition run_timestep_vars :: "topmodel \<Rightarrow> real \<Rightarrow> step_vars" where
  "run_timestep_vars st R =
     (let So = self_S st;
          Qb = subsurfaceflow st;
          S1 = So + Qb - Fin R;
          s = local_s st S1;
          qr = clamp_negative (gmap uminus s);
          Qr = fdiv (Fin (nansum qr) * Fin (real (self_CellArea st)))
                    (Fin (real (self_CatchmentArea st)));
          S = S1 + Qr;
          ix = filter (\<lambda>x. fle x (Fin 0)) (cells s);
          fsat = (if self_CatchmentArea st = 0 then Inl ZeroDivisionError
                  else Inr (real (length ix * self_CellArea st)
                            / real (self_CatchmentArea st)));
          dS = So - S;
          dF = Fin R - Qb - Qr;
          mbe = dS - dF
      in \<lparr> v_So = So, v_Qb = Qb, v_S1 = S1, v_s = s, v_qr = qr, v_Qr = Qr, v_S = S,
           v_fsat = fsat, v_mbe = mbe \<rparr>)"

text \<open>
  \<^verbatim>\<open>run_timestep(self, R)\<close>: the object after the call (\<^verbatim>\<open>self.qr\<close> and \<^verbatim>\<open>self.S\<close> are
  assigned before \<^verbatim>\<open>fsat\<close> is computed, so they are updated also when that line raises)
  and the returned dictionary, as the list of its items in insertion order.
\<close>

definition run_timestep ::
  "topmodel \<Rightarrow> real \<Rightarrow> topmodel \<times> (py_error + (string \<times> npfloat) list)" where
  "run_timestep st R =
     (let v = run_timestep_vars st R;
          st' = st \<lparr> self_qr := v_qr v, self_S := v_S v \<rparr>
      in (st',
          case v_fsat v of
            Inl e \<Rightarrow> Inl e
          | Inr fsat \<Rightarrow>
              Inr [(''baseflow'', v_Qb v * Fin 1000),
                   (''water_closure'', v_mbe v * Fin 1000),
                   (''saturated_area'', self_S st')]))"

text \<open>A run: the driver calls \<^verbatim>\<open>run_timestep\<close> once for each recharge value, in order.\<close>

fun run_steps :: "topmodel \<Rightarrow> real list \<Rightarrow> topmodel" where
  "run_steps st [] = st"
| "run_steps st (R # Rs) = run_steps (fst (run_timestep st R)) Rs"

section \<open>Double arithmetic\<close>

text \<open>
  Rounding to the nearest double, ties to the even significand (the IEEE default, which
  Python and NumPy use). \<open>rne\<close> rounds a real to the nearest integer, ties to even. A
  double near \<open>x\<close> is a multiple of \<open>ulp x = 2 ^ (e - 52)\<close>, where \<open>2 ^ e \<le> \<bar>x\<bar> < 2 ^ (e + 1)\<close>
  and \<open>e\<close> is at least \<open>- 1022\<close> (below \<open>2 ^ (- 1022)\<close> the doubles are the
  subnormal multiples of \<open>2 ^ (- 1074)\<close>, so a result below \<open>2 ^ (- 1075)\<close> underflows
  to zero). \<open>fl x\<close> is the double an operation with the exact result \<open>x\<close> returns; when
  it reaches \<open>2 ^ 1024\<close> the operation overflows to an infinity, which the embedding
  does not represent (\<open>dbl\<close> answers \<open>NaN\<close>).
\<close>

definition rne :: "real \<Rightarrow> int" where
  "rne x =
     (if x - of_int \<lfloor>x\<rfloor> < 1 / 2 then \<lfloor>x\<rfloor>
      else if 1 / 2 < x - of_int \<lfloor>x\<rfloor> then \<lfloor>x\<rfloor> + 1
      else if even \<lfloor>x\<rfloor> then \<lfloor>x\<rfloor> else \<lfloor>x\<rfloor> + 1)"

definition binade :: "real \<Rightarrow> int" where
  "binade x = max \<lfloor>log 2 \<bar>x\<bar>\<rfloor> (- 1022)"

definition ulp :: "real \<Rightarrow> real" where
  "ulp x = 2 powr (of_int (binade x) - 52)"

definition fl :: "real \<Rightarrow> real" where
  "fl x = (if x = 0 then 0 else of_int (rne (x / ulp x)) * ulp x)"

definition dbl :: "real \<Rightarrow> npfloat" where
  "dbl x = (if 2 ^ 1024 \<le> \<bar>fl x\<bar> then NaN else Fin (fl x))"

text \<open>
  The operations of the source on doubles. \<^verbatim>\<open>np.exp\<close> is taken as the correctly
  rounded exponential; what the theorems use of it is that it is \<open>1\<close> at \<open>0\<close>, that
  it underflows to \<open>0\<close>, and that it does not decrease.
\<close>

fun dadd :: "npfloat \<Rightarrow> npfloat \<Rightarrow> npfloat" where
  "dadd (Fin a) (Fin b) = dbl (a + b)"
| "dadd _ _ = NaN"

fun dsub :: "npfloat \<Rightarrow> npfloat \<Rightarrow> npfloat" where
  "dsub (Fin a) (Fin b) = dbl (a - b)"
| "dsub _ _ = NaN"

fun dmul :: "npfloat \<Rightarrow> npfloat \<Rightarrow> npfloat" where
  "dmul (Fin a) (Fin b) = dbl (a * b)"
| "dmul _ _ = NaN"

fun ddiv :: "npfloat \<Rightarrow> npfloat \<Rightarrow> npfloat" where
  "ddiv (Fin a) (Fin b) = (if b = 0 then NaN else dbl (a / b))"
| "ddiv _ _ = NaN"

fun dexp :: "npfloat \<Rightarrow> npfloat" where
  "dexp (Fin a) = dbl (exp a)"
| "dexp NaN = NaN"

text \<open>\<^verbatim>\<open>Qb = self.Qo*np.exp(-self.S / (self.M + eps))\<close> in doubles.\<close>

definition subsurfaceflow_dbl :: "topmodel \<Rightarrow> npfloat" where
  "subsurfaceflow_dbl st =
     dmul (Fin (self_Qo st)) (dexp (ddiv (- self_S st) (dadd (Fin (self_M st)) (Fin eps))))"

text \<open>\<^verbatim>\<open>s = Smean + self.M*(self.X - self.xi)\<close> in doubles.\<close>

definition local_s_dbl :: "topmodel \<Rightarrow> npfloat \<Rightarrow> grid" where
  "local_s_dbl st Smean =
     gmap (\<lambda>x. dadd Smean (dmul (Fin (self_M st)) (dsub (Fin (self_X st)) x))) (self_xi st)"

text \<open>
  \<^verbatim>\<open>np.nansum\<close> in doubles: NumPy adds the cells of an array of fewer than eight
  cells from left to right (a \<open>NaN\<close> counts as an exact zero); longer arrays are added
  in blocks, which this definition does not follow. It is used on three cells.
\<close>

definition nansum_dbl :: "grid \<Rightarrow> npfloat" where
  "nansum_dbl g = foldl dadd (Fin 0) (map Fin (fin_values (cells g)))"

text \<open>
  The locals of \<^verbatim>\<open>run_timestep\<close> in doubles, line by line as in
  \<open>run_timestep_vars\<close>. \<^verbatim>\<open>So + Qb - R\<close> is \<open>(So + Qb) - R\<close>, and
  \<^verbatim>\<open>np.nansum(self.qr)*self.CellArea / self.CatchmentArea\<close> is the product divided by
  the catchment area; the two areas are Python \<^verbatim>\<open>int\<close>s, taken to be below \<open>2 ^ 53\<close>,
  so that they become doubles without rounding. The quotient of two \<^verbatim>\<open>int\<close>s in
  \<^verbatim>\<open>fsat\<close> is the correctly rounded quotient. The state and the recharge \<open>R\<close> are
  taken to be doubles.
\<close>

definition run_timestep_vars_dbl :: "topmodel \<Rightarrow> real \<Rightarrow> step_vars" where
  "run_timestep_vars_dbl st R =
     (let So = self_S st;
          Qb = subsurfaceflow_dbl st;
          S1 = dsub (dadd So Qb) (Fin R);
          s = local_s_dbl st S1;
          qr = clamp_negative (gmap uminus s);
          Qr = ddiv (dmul (nansum_dbl qr) (Fin (real (self_CellArea st))))
                    (Fin (real (self_CatchmentArea st)));
          S = dadd S1 Qr;
          ix = filter (\<lambda>x. fle x (Fin 0)) (cells s);
          fsat = (if self_CatchmentArea st = 0 then Inl ZeroDivisionError
                  else Inr (fl (real (length ix * self_CellArea st)
                                / real (self_CatchmentArea st))));
          dS = dsub So S;
          dF = dsub (dsub (Fin R) Qb) Qr;
          mbe = dsub dS dF
      in \<lparr> v_So = So, v_Qb = Qb, v_S1 = S1, v_s = s, v_qr = qr, v_Qr = Qr, v_S = S,
           v_fsat = fsat, v_mbe = mbe \<rparr>)"

definition run_timestep_dbl ::
  "topmodel \<Rightarrow> real \<Rightarrow> topmodel \<times> (py_error + (string \<times> npfloat) list)" where
  "run_timestep_dbl st R =
     (let v = run_timestep_vars_dbl st R;
          st' = st \<lparr> self_qr := v_qr v, self_S := v_S v \<rparr>
      in (st',
          case v_fsat v of
            Inl e \<Rightarrow> Inl e
          | Inr fsat \<Rightarrow>
              Inr [(''baseflow'', dmul (v_Qb v) (Fin 1000)),
                   (''water_closure'', dmul (v_mbe v) (Fin 1000)),
                   (''saturated_area'', self_S st')]))"

section \<open>Notions of the specification\<close>

text \<open>
  The wetness index the constructor computes from \<open>pp\<close> before the cutoff (the value
  of its local \<^verbatim>\<open>xi\<close> after line 71).
\<close>

definition xi_raw :: "params \<Rightarrow> grid" where
  "xi_raw pp =
     wetness_index (sqrt (real (length (pp_cmask pp) * 16)))
       (gmul (pp_flowacc pp) (pp_cmask pp))
       (gmap radians (gmul (pp_slope pp) (pp_cmask pp)))"

text \<open>
  The catchment-area-weighted mean of a field, written as the source writes it for
  \<^verbatim>\<open>self.X\<close>: \<^verbatim>\<open>1.0 / self.CatchmentArea*np.nansum(field*self.CellArea)\<close>.
\<close>

definition area_weighted_mean :: "topmodel \<Rightarrow> grid \<Rightarrow> real" where
  "area_weighted_mean st g =
     1 / real (self_CatchmentArea st) * nansum (gmap (\<lambda>x. x * Fin (real (self_CellArea st))) g)"

text \<open>The mean deficit the constructor starts from (lines 41 and 42).\<close>

definition initial_deficit :: "params \<Rightarrow> real option \<Rightarrow> real" where
  "initial_deficit pp S_initial =
     (case S_initial of None \<Rightarrow> pp_so pp | Some v \<Rightarrow> if v = 0 then pp_so pp else v)"

text \<open>
  A valid topography: the mask holds 1 at the cells of the catchment and \<open>NaN\<close> at the
  others, there is a cell of the catchment, and the index is a number exactly at the
  cells of the catchment.
\<close>

definition valid_topography :: "params \<Rightarrow> bool" where
  "valid_topography pp =
     (Fin 1 \<in> set (cells (pp_cmask pp)) \<and>
      list_all2 (\<lambda>c x. (c = NaN \<and> x = NaN) \<or> (c = Fin 1 \<and> x \<noteq> NaN))
        (cells (pp_cmask pp)) (cells (xi_raw pp)))"

text \<open>
  What the constructor establishes on a valid topography and no timestep changes: the
  catchment area counts the cells that carry an index, and \<open>X\<close> is their mean.
\<close>

definition consistent :: "topmodel \<Rightarrow> bool" where
  "consistent st =
     (self_CatchmentArea st = length (fin_values (cells (self_xi st))) * self_CellArea st \<and>
      0 < self_CatchmentArea st \<and>
      self_X st = area_weighted_mean st (self_xi st))"

section \<open>An example catchment\<close>

text \<open>
  One row of three cells, two of them in the catchment, with indices 1 and 3 before the
  cutoff at the median, which is 2; the parameters are the defaults of
  \<^verbatim>\<open>src/parameters.py\<close> but for the cutoff.
\<close>

definition pp_example :: params where
  "pp_example =
     \<lparr> pp_dt = 86400, pp_ko = 1 / 1000, pp_m = 1 / 40, pp_twi_cutoff = 50, pp_so = 1 / 20,
       pp_cmask = [[Fin 1, Fin 1, NaN]],
       pp_flowacc = [[Fin (4 * eps * exp 1), Fin (4 * eps * exp 3), Fin 7]],
       pp_slope = [[Fin 0, Fin 0, Fin 5]] \<rparr>"

definition st_example :: topmodel where
  "st_example =
     \<lparr> self_dt = 86400, self_CellArea = 16, self_CatchmentArea = 32,
       self_qr = [[Fin 0, Fin 0, Fin 0]],
       self_a = [[Fin (4 * eps * exp 1), Fin (4 * eps * exp 3), NaN]],
       self_slope = [[Fin 0, Fin 0, NaN]],
       self_M = 1 / 40, self_To = 432 / 5,
       self_xi = [[Fin 1, Fin 2, NaN]], self_X = 3 / 2,
       self_Qo = 432 / 5 * exp (- (3 / 2)),
       self_S = Fin (1 / 20), self_has_results = False \<rparr>"

text \<open>
  An object in doubles: three cells in the catchment with the indices 7, 7 and 4, whose
  mean \<open>X = 6\<close> the constructor computes without rounding; the default depth
  \<^verbatim>\<open>m = 0.025\<close>, which as a double is \<open>fl (1 / 40)\<close>; \<open>Qo = 0.03125\<close>; and the state
  \<open>S = 0\<close>. The attributes that \<^verbatim>\<open>run_timestep\<close> does not read are those of the
  example above. \<open>R_double\<close> is the recharge \<^verbatim>\<open>0.2\<close> as a double.
\<close>

definition st_double :: topmodel where
  "st_double =
     st_example \<lparr> self_CatchmentArea := 48, self_qr := [[Fin 0, Fin 0, Fin 0]],
                  self_M := fl (1 / 40),
                  self_xi := [[Fin 7, Fin 7, Fin 4]], self_X := 6,
                  self_Qo := 1 / 32, self_S := Fin 0 \<rparr>"

definition R_double :: real where
  "R_double = fl (1 / 5)"

text \<open>The example with a mask that has no cell of the catchment.\<close>

definition pp_no_active :: params where
  "pp_no_active = pp_example \<lparr> pp_cmask := [[NaN, NaN, NaN]] \<rparr>"

section \<open>Facts about grids\<close>

lemma eps_pos: "0 < eps"
  by (simp add: eps_def)

lemma sqrt16: "sqrt 16 = 4"
  using real_sqrt_abs[of 4] by simp

lemma cells_gmap: "cells (gmap f g) = map f (cells g)"
  by (simp add: cells_def gmap_def map_concat)

lemma gmap_gmap: "gmap f (gmap g h) = gmap (\<lambda>x. f (g x)) h"
  by (simp add: gmap_def comp_def)

lemma gmap_ext: "(\<And>x. f x = g x) \<Longrightarrow> gmap f h = gmap g h"
  by (simp add: gmap_def)

lemma fin_values_map:
  assumes "f NaN = NaN" "\<And>v. f (Fin v) = Fin (h v)"
  shows "fin_values (map f cs) = map h (fin_values cs)"
proof (induction cs)
  case Nil show ?case by simp
next
  case (Cons c cs) then show ?case using assms by (cases c) simp_all
qed

lemma length_fin_values_map:
  assumes "\<And>c. (f c = NaN) = (c = NaN)"
  shows "length (fin_values (map f cs)) = length (fin_values cs)"
proof (induction cs)
  case Nil show ?case by simp
next
  case (Cons c cs)
  show ?case
  proof (cases c)
    case NaN then show ?thesis using Cons assms[of NaN] by simp
  next
    case (Fin v)
    then obtain w where "f c = Fin w" using assms[of c] by (cases "f c") auto
    then show ?thesis using Cons Fin by simp
  qed
qed

lemma nansum_weighted:
  "nansum (gmap (\<lambda>x. x * Fin A) g) = A * sum_list (fin_values (cells g))"
proof -
  have "fin_values (map (\<lambda>x. x * Fin A) cs) = map (\<lambda>v. v * A) (fin_values cs)" for cs
    by (rule fin_values_map) simp_all
  then show ?thesis
    by (simp add: nansum_def cells_gmap sum_list_mult_const mult.commute)
qed

lemma sum_list_affine:
  "sum_list (map (\<lambda>v. c + k * (x - v)) vs) = real (length vs) * (c + k * x) - k * sum_list vs"
  for c k x :: real
  by (induction vs) (simp_all add: algebra_simps)

lemma sum_list_neg: "sum_list (map (\<lambda>v. - f v) vs) = - sum_list (map f vs)"
  for f :: "real \<Rightarrow> real"
  by (induction vs) simp_all

lemma cutoff_cells: "list_all (\<lambda>x. x = NaN \<or> fle x (Fin clim)) (cells (apply_cutoff clim g))"
proof -
  have "list_all (\<lambda>x. x = NaN \<or> fle x (Fin clim))
          (map (\<lambda>x. if flt (Fin clim) x then Fin clim else x) cs)" for cs
  proof (induction cs)
    case Nil show ?case by simp
  next
    case (Cons c cs) then show ?case by (cases c) simp_all
  qed
  then show ?thesis by (simp add: apply_cutoff_def cells_gmap)
qed

lemma length_fin_values_cutoff:
  "length (fin_values (cells (apply_cutoff clim g))) = length (fin_values (cells g))"
  unfolding apply_cutoff_def cells_gmap
  by (rule length_fin_values_map) (case_tac c, auto)

lemma np_percentile_errors:
  "np_percentile xs q = Inl e \<Longrightarrow> e = ValueError \<or> e = IndexError"
  by (auto simp: np_percentile_def Let_def split: if_splits)

text \<open>The two positions \<^verbatim>\<open>np.percentile\<close> interpolates between lie inside the sample.\<close>

lemma np_percentile_in_range:
  assumes "0 \<le> q" and "q \<le> 100" and "xs \<noteq> []"
  shows "nat \<lfloor>q / 100 * real (length xs - 1)\<rfloor> < length (sort xs)"
    and "min (nat \<lfloor>q / 100 * real (length xs - 1)\<rfloor> + 1) (length xs - 1) < length (sort xs)"
proof -
  let ?n = "length xs"
  have n: "0 < ?n" using assms(3) by simp
  have "q / 100 * real (?n - 1) \<le> 1 * real (?n - 1)"
    using assms(2) by (intro mult_right_mono) simp_all
  then have "\<lfloor>q / 100 * real (?n - 1)\<rfloor> \<le> int (?n - 1)"
    by (simp add: floor_le_iff)
  then have "nat \<lfloor>q / 100 * real (?n - 1)\<rfloor> \<le> ?n - 1" by simp
  with n have "nat \<lfloor>q / 100 * real (?n - 1)\<rfloor> < ?n" by linarith
  then show "nat \<lfloor>q / 100 * real (?n - 1)\<rfloor> < length (sort xs)"
    by (simp only: length_sort)
  from n have "min (nat \<lfloor>q / 100 * real (?n - 1)\<rfloor> + 1) (?n - 1) < ?n"
    by linarith
  then show "min (nat \<lfloor>q / 100 * real (?n - 1)\<rfloor> + 1) (?n - 1) < length (sort xs)"
    by (simp only: length_sort)
qed

section \<open>Facts about rounding\<close>

lemma rne_bounds: "\<lfloor>x\<rfloor> \<le> rne x" "rne x \<le> \<lfloor>x\<rfloor> + 1"
  by (simp_all add: rne_def)

lemma rne_of_int: "rne (of_int k) = k"
  by (simp add: rne_def)

lemma rne_mono:
  assumes "x \<le> y"
  shows "rne x \<le> rne y"
proof (cases "\<lfloor>x\<rfloor> = \<lfloor>y\<rfloor>")
  case True
  then show ?thesis using assms by (auto simp: rne_def)
next
  case False
  then have "\<lfloor>x\<rfloor> + 1 \<le> \<lfloor>y\<rfloor>" using floor_mono[OF assms] by linarith
  then show ?thesis using rne_bounds(2)[of x] rne_bounds(1)[of y] by linarith
qed

lemma rne_uminus: "rne (- x) = - rne x"
proof (cases "x = of_int \<lfloor>x\<rfloor>")
  case True
  then obtain k where "x = of_int k" ..
  then show ?thesis by (simp add: rne_of_int rne_of_int[of "- k", simplified])
next
  case False
  then have fl: "\<lfloor>- x\<rfloor> = - \<lfloor>x\<rfloor> - 1"
    by (metis ceiling_altdef minus_diff_eq diff_minus_eq_add uminus_add_conv_diff add.commute floor_minus)
  show ?thesis
    unfolding rne_def fl by (auto simp: algebra_simps)
qed

lemma rne_nearest:
  assumes "\<bar>x - of_int m\<bar> < 1 / 2"
  shows "rne x = m"
proof -
  have "\<lfloor>x\<rfloor> = m \<or> \<lfloor>x\<rfloor> = m - 1" using assms by linarith
  then show ?thesis
  proof
    assume f: "\<lfloor>x\<rfloor> = m"
    then have "x - of_int \<lfloor>x\<rfloor> < 1 / 2" using assms by linarith
    then show ?thesis using f by (simp add: rne_def)
  next
    assume f: "\<lfloor>x\<rfloor> = m - 1"
    then have "of_int \<lfloor>x\<rfloor> = of_int m - (1::real)" by simp
    then have "1 / 2 < x - of_int \<lfloor>x\<rfloor>" using assms by linarith
    then show ?thesis using f by (simp add: rne_def)
  qed
qed

lemma ulp_pos: "0 < ulp x"
  by (simp add: ulp_def)

lemma binade_uminus: "binade (- x) = binade x"
  by (simp add: binade_def)

lemma ulp_uminus: "ulp (- x) = ulp x"
  by (simp add: ulp_def binade_uminus)

lemma fl_uminus: "fl (- x) = - fl x"
  by (simp add: fl_def ulp_uminus rne_uminus)

lemma fl_nonneg: "0 \<le> x \<Longrightarrow> 0 \<le> fl x"
proof -
  assume "0 \<le> x"
  then have "0 \<le> x / ulp x" using ulp_pos[of x] by simp
  then have "rne 0 \<le> rne (x / ulp x)" by (rule rne_mono)
  then have "0 \<le> rne (x / ulp x)" using rne_of_int[of 0] by simp
  then show ?thesis using ulp_pos[of x] by (simp add: fl_def)
qed

lemma binade_mono:
  assumes "0 < x" "x \<le> y"
  shows "binade x \<le> binade y"
proof -
  have "log 2 \<bar>x\<bar> \<le> log 2 \<bar>y\<bar>" using assms by simp
  then have "\<lfloor>log 2 \<bar>x\<bar>\<rfloor> \<le> \<lfloor>log 2 \<bar>y\<bar>\<rfloor>" by (rule floor_mono)
  then show ?thesis by (simp add: binade_def)
qed

lemma below_next_binade:
  assumes "0 < x"
  shows "x < 2 powr (of_int (binade x) + 1)"
proof -
  have "\<lfloor>log 2 x\<rfloor> \<le> binade x" using assms by (simp add: binade_def)
  then have "log 2 x < of_int (binade x) + 1" by linarith
  then show ?thesis using assms by (simp add: log_less_iff)
qed

lemma above_binade:
  assumes "0 < x" "- 1022 < binade x"
  shows "2 powr (of_int (binade x)) \<le> x"
proof -
  have "binade x = \<lfloor>log 2 x\<rfloor>" using assms by (simp add: binade_def max_def split: if_splits)
  then have "of_int (binade x) \<le> log 2 x" by simp
  then show ?thesis using assms(1) by (simp add: le_log_iff)
qed

lemma fl_upper:
  assumes "0 < x"
  shows "fl x \<le> 2 powr (of_int (binade x) + 1)"
proof -
  have "x / ulp x < 2 powr (of_int (binade x) + 1) / ulp x"
    using below_next_binade[OF assms] ulp_pos[of x] by (simp add: divide_strict_right_mono)
  also have "\<dots> = 2 powr 53" by (simp add: ulp_def flip: powr_diff)
  also have "\<dots> = of_int (2 ^ 53)" by simp
  finally have "x / ulp x \<le> of_int (2 ^ 53)" by simp
  then have "rne (x / ulp x) \<le> rne (of_int (2 ^ 53))" by (rule rne_mono)
  then have "rne (x / ulp x) \<le> 2 ^ 53" by (simp only: rne_of_int)
  then have "real_of_int (rne (x / ulp x)) \<le> 2 powr 53" by simp
  then have "real_of_int (rne (x / ulp x)) * ulp x \<le> 2 powr 53 * ulp x"
    using ulp_pos[of x] by (simp add: mult_right_mono)
  also have "2 powr 53 * ulp x = 2 powr (of_int (binade x) + 1)"
  proof -
    have "2 powr 53 * ulp x = 2 powr (53 + (of_int (binade x) - 52))"
      by (simp only: ulp_def powr_add)
    then show ?thesis by (simp only: add_diff_eq) (simp add: algebra_simps)
  qed
  finally show ?thesis using assms by (simp add: fl_def)
qed

lemma fl_lower:
  assumes "0 < x" "- 1022 < binade x"
  shows "2 powr (of_int (binade x)) \<le> fl x"
proof -
  have "2 powr (of_int (binade x)) / ulp x \<le> x / ulp x"
    using above_binade[OF assms] ulp_pos[of x] by (simp add: divide_right_mono)
  moreover have "2 powr (of_int (binade x)) / ulp x = 2 powr 52"
    by (simp add: ulp_def flip: powr_diff)
  moreover have "(2::real) powr 52 = of_int (2 ^ 52)" by simp
  ultimately have "of_int (2 ^ 52) \<le> x / ulp x" by simp
  then have "rne (of_int (2 ^ 52)) \<le> rne (x / ulp x)" by (rule rne_mono)
  then have "2 ^ 52 \<le> rne (x / ulp x)" by (simp only: rne_of_int)
  then have "2 powr 52 \<le> real_of_int (rne (x / ulp x))" by simp
  then have "2 powr 52 * ulp x \<le> real_of_int (rne (x / ulp x)) * ulp x"
    using ulp_pos[of x] by (simp add: mult_right_mono)
  moreover have "2 powr 52 * ulp x = 2 powr (of_int (binade x))"
  proof -
    have "2 powr 52 * ulp x = 2 powr (52 + (of_int (binade x) - 52))"
      by (simp only: ulp_def powr_add)
    then show ?thesis by (simp only: add_diff_cancel_left' add_diff_eq)
  qed
  ultimately show ?thesis using assms by (simp add: fl_def)
qed

lemma fl_mono_pos:
  assumes "0 < x" "x \<le> y"
  shows "fl x \<le> fl y"
proof (cases "binade x = binade y")
  case True
  then have u: "ulp x = ulp y" by (simp add: ulp_def)
  have "x / ulp y \<le> y / ulp y" using assms ulp_pos[of y] by (simp add: divide_right_mono)
  then have "rne (x / ulp y) \<le> rne (y / ulp y)" by (rule rne_mono)
  then have "real_of_int (rne (x / ulp y)) * ulp y \<le> real_of_int (rne (y / ulp y)) * ulp y"
    using ulp_pos[of y] by (simp add: mult_right_mono)
  then show ?thesis using assms by (simp add: fl_def u)
next
  case False
  then have lt: "binade x < binade y" using binade_mono[OF assms] by simp
  have y: "0 < y" using assms by simp
  have "- 1022 \<le> binade x" by (simp add: binade_def)
  then have "- 1022 < binade y" using lt by simp
  then have "2 powr (of_int (binade y)) \<le> fl y" by (rule fl_lower[OF y])
  moreover have "fl x \<le> 2 powr (of_int (binade x) + 1)" by (rule fl_upper[OF assms(1)])
  moreover have "(2::real) powr (of_int (binade x) + 1) \<le> 2 powr (of_int (binade y))"
    using lt by simp
  ultimately show ?thesis by linarith
qed

lemma fl_mono:
  assumes "x \<le> y"
  shows "fl x \<le> fl y"
proof -
  consider "0 < x" | "x \<le> 0" "0 \<le> y" | "y < 0" by linarith
  then show ?thesis
  proof cases
    case 1 then show ?thesis using assms by (rule fl_mono_pos)
  next
    case 2
    have "0 \<le> fl y" using 2(2) by (rule fl_nonneg)
    moreover have "0 \<le> fl (- x)" using 2(1) by (simp add: fl_nonneg)
    ultimately show ?thesis by (simp add: fl_uminus)
  next
    case 3
    then have "fl (- y) \<le> fl (- x)" using assms by (intro fl_mono_pos) simp_all
    then show ?thesis by (simp add: fl_uminus)
  qed
qed

lemma fl_nearest:
  assumes "- 1022 \<le> e" and "e \<le> 52"
    and "2 ^ 52 \<le> \<bar>x\<bar> * 2 ^ nat (52 - e)" and "\<bar>x\<bar> * 2 ^ nat (52 - e) < 2 ^ 53"
    and "\<bar>x * 2 ^ nat (52 - e) - of_int m\<bar> < 1 / 2"
  shows "fl x = of_int m / 2 ^ nat (52 - e)"
proof -
  have p: "(2::real) ^ nat (52 - e) = 2 powr (52 - of_int e)"
    using assms(2) by (simp add: powr_realpow[symmetric])
  have x0: "x \<noteq> 0" using assms(3) by auto
  have "2 powr 52 \<le> \<bar>x\<bar> * 2 powr (52 - of_int e)"
    using assms(3) unfolding p by simp
  then have lo: "2 powr (of_int e) \<le> \<bar>x\<bar>"
    by (simp add: powr_diff field_simps)
  have "\<bar>x\<bar> * 2 powr (52 - of_int e) < 2 powr 53"
    using assms(4) unfolding p by simp
  then have hi: "\<bar>x\<bar> < 2 powr (of_int e + 1)"
    by (simp add: powr_diff powr_add field_simps)
  have "\<lfloor>log 2 \<bar>x\<bar>\<rfloor> = e"
    using lo hi x0 by (simp add: floor_log_eq_powr_iff)
  then have b: "binade x = e" using assms(1) by (simp add: binade_def)
  have u: "ulp x = 1 / 2 ^ nat (52 - e)"
    unfolding ulp_def b p by (simp add: powr_diff)
  have "rne (x / ulp x) = m" unfolding u using assms(5) by (simp add: rne_nearest)
  then show ?thesis using x0 by (simp add: fl_def u)
qed

lemma fl_underflow:
  assumes "0 \<le> x" and "x < 2 powr (- 1075)"
  shows "fl x = 0"
proof (cases "x = 0")
  case True then show ?thesis by (simp add: fl_def)
next
  case False
  then have pos: "0 < x" using assms(1) by simp
  have "log 2 x < - 1075" using assms(2) pos by (simp add: log_less_iff)
  then have "\<lfloor>log 2 x\<rfloor> < - 1022" by linarith
  then have b: "binade x = - 1022" using pos by (simp add: binade_def)
  have u: "ulp x = 2 powr (- 1074)" by (simp add: ulp_def b)
  have "x / 2 powr (- 1074) < 2 powr (- 1075) / 2 powr (- 1074)"
    using assms(2) by (simp add: divide_strict_right_mono)
  also have "\<dots> = 1 / 2" by (simp flip: powr_diff add: powr_minus)
  finally have "\<bar>x / ulp x - of_int 0\<bar> < 1 / 2" using pos by (simp add: u)
  then have "rne (x / ulp x) = 0" by (rule rne_nearest)
  then show ?thesis by (simp add: fl_def)
qed

lemma fl_0: "fl 0 = 0"
  by (simp add: fl_def)

lemma dbl_0: "dbl 0 = Fin 0"
  by (simp add: dbl_def fl_0)

lemma dbl_small: "\<bar>fl x\<bar> \<le> 2 ^ 12 \<Longrightarrow> dbl x = Fin (fl x)"
proof -
  assume a: "\<bar>fl x\<bar> \<le> 2 ^ 12"
  have "(2::real) ^ 12 < 2 ^ 1024" by (rule power_strict_increasing) simp_all
  with a have "\<not> 2 ^ 1024 \<le> \<bar>fl x\<bar>" by linarith
  then show ?thesis by (simp add: dbl_def)
qed

lemma dbl_Fin: "dbl x = Fin y \<Longrightarrow> y = fl x"
  by (simp add: dbl_def split: if_splits)

lemma dbl_nearest:
  assumes "- 1022 \<le> e" and "e \<le> 10"
    and "2 ^ 52 \<le> \<bar>x\<bar> * 2 ^ nat (52 - e)" and "\<bar>x\<bar> * 2 ^ nat (52 - e) < 2 ^ 53"
    and "\<bar>x * 2 ^ nat (52 - e) - of_int m\<bar> < 1 / 2"
  shows "dbl x = Fin (of_int m / 2 ^ nat (52 - e))"
proof -
  have e52: "e \<le> 52" using assms(2) by simp
  have f: "fl x = of_int m / 2 ^ nat (52 - e)"
    by (rule fl_nearest[OF assms(1) e52 assms(3,4,5)])
  have "\<bar>real_of_int m\<bar> \<le> \<bar>x * 2 ^ nat (52 - e)\<bar> + 1 / 2" using assms(5) by linarith
  also have "\<bar>x * 2 ^ nat (52 - e)\<bar> = \<bar>x\<bar> * 2 ^ nat (52 - e)" by (simp add: abs_mult)
  finally have "\<bar>real_of_int m\<bar> < 2 ^ 53 + 1 / 2" using assms(4) by linarith
  then have "real_of_int \<bar>m\<bar> < real_of_int (2 ^ 53 + 1)" by simp
  then have "\<bar>m\<bar> < 2 ^ 53 + 1" by (simp only: of_int_less_iff)
  then have "\<bar>m\<bar> \<le> 2 ^ 53" by simp
  then have "real_of_int \<bar>m\<bar> \<le> real_of_int (2 ^ 53)" by (simp only: of_int_le_iff)
  then have m: "\<bar>real_of_int m\<bar> \<le> 2 ^ 53" by simp
  have "(2::real) ^ 42 \<le> 2 ^ nat (52 - e)"
    using assms(2) by (intro power_increasing) simp_all
  then have "\<bar>real_of_int m\<bar> / 2 ^ nat (52 - e) \<le> 2 ^ 53 / 2 ^ 42"
    using m by (intro frac_le) simp_all
  then have "\<bar>fl x\<bar> \<le> 2 ^ 12" unfolding f by (simp add: abs_divide)
  then show ?thesis unfolding f[symmetric] by (rule dbl_small)
qed

lemma dbl_1: "dbl 1 = Fin 1"
  using dbl_nearest[of 0 1 "2 ^ 52"] by simp

lemma fl_eps: "fl eps = eps"
  using fl_nearest[of "- 52" eps "2 ^ 52"] by (simp add: eps_def)

lemma exp_underflow:
  fixes x :: real
  assumes "x \<le> - 1100"
  shows "exp x < 2 powr (- 1075)"
proof -
  have "ln (2::real) \<le> 2 - 1" by (rule ln_le_minus_one) simp
  then have "- 1075 \<le> - 1075 * ln (2::real)" by simp
  then have "x < - 1075 * ln 2" using assms by linarith
  then have "exp x < exp (- 1075 * ln 2)" by simp
  then show ?thesis by (simp add: powr_def)
qed

lemma subsurfaceflow_dbl_Fin:
  assumes "subsurfaceflow_dbl st = Fin q" and "self_S st = Fin s"
  shows "q = fl (self_Qo st * fl (exp (fl (- s / fl (self_M st + eps)))))"
    and "fl (self_M st + eps) \<noteq> 0"
  using assms
  by (auto simp: subsurfaceflow_dbl_def dbl_def split: if_splits)

section \<open>What the constructor establishes\<close>

lemma init_fields:
  assumes "Topmodel_init pp S_initial outputs = Inr st"
  shows "\<exists>clim. np_percentile (positive_values (xi_raw pp)) (pp_twi_cutoff pp) = Inr clim
           \<and> self_xi st = apply_cutoff clim (xi_raw pp)"
    and "self_CellArea st = length (pp_cmask pp) * 16"
    and "self_CatchmentArea st
           = length (filter (\<lambda>c. c = Fin 1) (cells (pp_cmask pp))) * self_CellArea st"
    and "self_CatchmentArea st \<noteq> 0"
    and "self_X st = area_weighted_mean st (self_xi st)"
    and "self_M st = pp_m pp"
    and "self_S st = nanmean (clamp_negative (local_s st (Fin (initial_deficit pp S_initial))))"
  using assms
  by (auto simp: Topmodel_init_def Let_def xi_raw_def area_weighted_mean_def local_s_def
        initial_deficit_def split: sum.splits if_splits)

lemma count_active:
  assumes "list_all2 (\<lambda>c x. (c = NaN \<and> x = NaN) \<or> (c = Fin 1 \<and> x \<noteq> NaN)) cs xs"
  shows "length (fin_values xs) = length (filter (\<lambda>c. c = Fin 1) cs)"
  using assms
proof (induction rule: list_all2_induct)
  case Nil show ?case by simp
next
  case (Cons c cs x xs) then show ?case by (cases x) auto
qed

lemma init_consistent:
  assumes "valid_topography pp" "Topmodel_init pp S_initial outputs = Inr st"
  shows "consistent st"
proof -
  from init_fields(1)[OF assms(2)] obtain clim where
    xi: "self_xi st = apply_cutoff clim (xi_raw pp)" by blast
  have "length (fin_values (cells (self_xi st)))
          = length (filter (\<lambda>c. c = Fin 1) (cells (pp_cmask pp)))"
    using assms(1) count_active unfolding valid_topography_def xi length_fin_values_cutoff
    by blast
  then show ?thesis
    unfolding consistent_def
    using init_fields(3,4,5)[OF assms(2)] by simp
qed

lemma consistentD:
  assumes "consistent st"
  shows "self_CatchmentArea st = length (fin_values (cells (self_xi st))) * self_CellArea st"
    and "0 < length (fin_values (cells (self_xi st)))"
    and "0 < self_CellArea st"
    and "self_X st = area_weighted_mean st (self_xi st)"
proof -
  from assms have *: "self_CatchmentArea st = length (fin_values (cells (self_xi st))) * self_CellArea st"
    and **: "0 < self_CatchmentArea st" and ***: "self_X st = area_weighted_mean st (self_xi st)"
    unfolding consistent_def by blast+
  show "self_CatchmentArea st = length (fin_values (cells (self_xi st))) * self_CellArea st" by (fact *)
  show "self_X st = area_weighted_mean st (self_xi st)" by (fact ***)
  from ** show "0 < length (fin_values (cells (self_xi st)))" unfolding * by simp
  from ** show "0 < self_CellArea st" unfolding * by simp
qed

lemma consistent_X:
  assumes "consistent st"
  shows "real (length (fin_values (cells (self_xi st)))) * self_X st
           = sum_list (fin_values (cells (self_xi st)))"
proof -
  let ?n = "length (fin_values (cells (self_xi st)))"
  let ?A = "self_CellArea st"
  note CA = consistentD(1)[OF assms] and X = consistentD(4)[OF assms]
  from consistentD(2,3)[OF assms] show ?thesis
    unfolding X area_weighted_mean_def nansum_weighted CA by (simp add: field_simps)
qed

lemma fin_values_local_s:
  "fin_values (cells (local_s st (Fin m)))
     = map (\<lambda>v. m + self_M st * (self_X st - v)) (fin_values (cells (self_xi st)))"
  unfolding local_s_def cells_gmap by (rule fin_values_map) simp_all

lemma mean_local_s:
  assumes "consistent st"
  shows "area_weighted_mean st (local_s st (Fin m)) = m"
proof -
  let ?vs = "fin_values (cells (self_xi st))"
  let ?n = "length ?vs"
  let ?A = "self_CellArea st"
  note CA = consistentD(1)[OF assms] and n = consistentD(2)[OF assms]
    and A = consistentD(3)[OF assms]
  have "sum_list (fin_values (cells (local_s st (Fin m))))
          = real ?n * (m + self_M st * self_X st) - self_M st * sum_list ?vs"
    by (simp add: fin_values_local_s sum_list_affine)
  also have "\<dots> = real ?n * m"
    using consistent_X[OF assms] by (simp add: algebra_simps)
  finally have "sum_list (fin_values (cells (local_s st (Fin m)))) = real ?n * m" .
  then show ?thesis
    unfolding area_weighted_mean_def nansum_weighted CA using n A by simp
qed

lemma init_S_nonneg:
  assumes "consistent st"
    and "self_S st = nanmean (clamp_negative (local_s st (Fin d)))"
  shows "\<exists>S0. self_S st = Fin S0 \<and> 0 \<le> S0"
proof -
  let ?vs = "fin_values (cells (self_xi st))"
  have "fin_values (cells (clamp_negative (local_s st (Fin d))))
          = map (\<lambda>v. max 0 (d + self_M st * (self_X st - v))) ?vs"
    unfolding clamp_negative_def local_s_def gmap_gmap cells_gmap
    by (rule fin_values_map) (simp_all add: max_def)
  moreover have "?vs \<noteq> []" using consistentD(2)[OF assms(1)] by simp
  moreover have "0 \<le> sum_list (map (\<lambda>v. max 0 (d + self_M st * (self_X st - v))) ?vs)"
    by (rule sum_list_nonneg) auto
  ultimately show ?thesis
    unfolding assms(2) nanmean_def Let_def by simp
qed

section \<open>What a timestep keeps\<close>

lemma step_frame:
  "self_M (fst (run_timestep st R)) = self_M st"
  "self_CatchmentArea (fst (run_timestep st R)) = self_CatchmentArea st"
  "self_CellArea (fst (run_timestep st R)) = self_CellArea st"
  "self_xi (fst (run_timestep st R)) = self_xi st"
  "self_X (fst (run_timestep st R)) = self_X st"
  "self_Qo (fst (run_timestep st R)) = self_Qo st"
  by (simp_all add: run_timestep_def Let_def)

lemma run_steps_frame:
  "self_M (run_steps st Rs) = self_M st"
  "self_CatchmentArea (run_steps st Rs) = self_CatchmentArea st"
  "self_CellArea (run_steps st Rs) = self_CellArea st"
  "self_xi (run_steps st Rs) = self_xi st"
  "self_X (run_steps st Rs) = self_X st"
  "self_Qo (run_steps st Rs) = self_Qo st"
  by (induction Rs arbitrary: st) (simp_all add: step_frame)

lemma step_S_fin:
  assumes "self_S st = Fin s" "self_M st + eps \<noteq> 0" "self_CatchmentArea st \<noteq> 0"
  shows "\<exists>s'. self_S (fst (run_timestep st R)) = Fin s'"
  using assms by (simp add: run_timestep_def run_timestep_vars_def subsurfaceflow_def Let_def)

lemma run_steps_S_fin:
  assumes "self_S st = Fin s" "self_M st + eps \<noteq> 0" "self_CatchmentArea st \<noteq> 0"
  shows "\<exists>s'. self_S (run_steps st Rs) = Fin s'"
  using assms
proof (induction Rs arbitrary: st s)
  case Nil then show ?case by simp
next
  case (Cons R Rs)
  obtain s' where "self_S (fst (run_timestep st R)) = Fin s'"
    using step_S_fin[OF Cons.prems] by blast
  then show ?case using Cons.IH[of "fst (run_timestep st R)" s'] Cons.prems
    by (simp add: step_frame)
qed

lemma run_steps_consistent:
  assumes "consistent st"
  shows "consistent (run_steps st Rs)"
  using assms unfolding consistent_def area_weighted_mean_def run_steps_frame .

lemma returnflow_field:
  "clamp_negative (gmap uminus (local_s st (Fin S')))
     = gmap (\<lambda>x. case x of NaN \<Rightarrow> NaN
                 | Fin xi_i \<Rightarrow> Fin (max 0 (- (S' + self_M st * (self_X st - xi_i)))))
         (self_xi st)"
  unfolding clamp_negative_def local_s_def gmap_gmap
proof (rule gmap_ext)
  fix x :: npfloat
  show "(if flt (- (Fin S' + Fin (self_M st) * (Fin (self_X st) - x))) (Fin 0) then Fin 0
         else - (Fin S' + Fin (self_M st) * (Fin (self_X st) - x)))
        = (case x of NaN \<Rightarrow> NaN
           | Fin xi_i \<Rightarrow> Fin (max 0 (- (S' + self_M st * (self_X st - xi_i)))))"
    by (cases x) (simp_all add: max_def)
qed

lemma step_vars_fin:
  assumes "self_S st = Fin s" and "self_M st + eps \<noteq> 0" and "self_CatchmentArea st \<noteq> 0"
  shows "\<exists>s1. v_S1 (run_timestep_vars st R) = Fin s1 \<and>
           v_Qr (run_timestep_vars st R)
             = Fin (nansum (clamp_negative (gmap uminus (local_s st (Fin s1))))
                    * real (self_CellArea st) / real (self_CatchmentArea st)) \<and>
           self_S (fst (run_timestep st R))
             = Fin (s1 + nansum (clamp_negative (gmap uminus (local_s st (Fin s1))))
                    * real (self_CellArea st) / real (self_CatchmentArea st))"
  using assms by (simp add: run_timestep_def run_timestep_vars_def subsurfaceflow_def Let_def)

lemma fin_values_returnflow:
  "fin_values (cells (clamp_negative (gmap uminus (local_s st (Fin s1)))))
     = map (\<lambda>v. max 0 (- (s1 + self_M st * (self_X st - v)))) (fin_values (cells (self_xi st)))"
  unfolding returnflow_field cells_gmap by (rule fin_values_map) simp_all

lemma returnflow_bound:
  assumes "consistent st"
  shows "max 0 (- s1)
           \<le> nansum (clamp_negative (gmap uminus (local_s st (Fin s1))))
               * real (self_CellArea st) / real (self_CatchmentArea st)"
proof -
  let ?vs = "fin_values (cells (self_xi st))"
  let ?n = "length ?vs"
  let ?A = "self_CellArea st"
  let ?f = "\<lambda>v. - (s1 + self_M st * (self_X st - v))"
  let ?sum = "sum_list (map (\<lambda>v. max 0 (?f v)) ?vs)"
  note CA = consistentD(1)[OF assms] and n = consistentD(2)[OF assms]
    and A = consistentD(3)[OF assms]
  have nonneg: "0 \<le> ?sum" by (rule sum_list_nonneg) auto
  have "sum_list (map ?f ?vs) \<le> ?sum" by (rule sum_list_mono) simp
  moreover have "sum_list (map ?f ?vs) = - sum_list (map (\<lambda>v. s1 + self_M st * (self_X st - v)) ?vs)"
    by (rule sum_list_neg)
  moreover have "sum_list (map (\<lambda>v. s1 + self_M st * (self_X st - v)) ?vs) = real ?n * s1"
  proof -
    have "sum_list (map (\<lambda>v. s1 + self_M st * (self_X st - v)) ?vs)
            = real ?n * (s1 + self_M st * self_X st) - self_M st * sum_list ?vs"
      by (rule sum_list_affine)
    also have "\<dots> = real ?n * s1"
      using consistent_X[OF assms] by (simp add: algebra_simps)
    finally show ?thesis .
  qed
  ultimately have "real ?n * (- s1) \<le> ?sum" by simp
  with nonneg have "real ?n * max 0 (- s1) \<le> ?sum"
    by (simp add: max_def)
  then have "max 0 (- s1) * real ?n \<le> ?sum"
    by (simp only: mult.commute)
  moreover have "0 < real ?n" using n by simp
  ultimately have "max 0 (- s1) \<le> ?sum / real ?n"
    by (simp only: pos_le_divide_eq)
  moreover have "nansum (clamp_negative (gmap uminus (local_s st (Fin s1))))
               * real ?A / real (self_CatchmentArea st) = ?sum / real ?n"
    unfolding nansum_def fin_values_returnflow CA using n A by simp
  ultimately show ?thesis by simp
qed

lemma count_saturated:
  "length (filter (\<lambda>c. fle c (Fin 0)) (map (\<lambda>x. Fin S' + Fin M * (Fin X - x)) cs))
     = length (filter (\<lambda>v. S' + M * (X - v) \<le> 0) (fin_values cs))"
proof (induction cs)
  case Nil show ?case by simp
next
  case (Cons c cs) then show ?case by (cases c) simp_all
qed

lemma init_state_number:
  assumes "valid_topography pp" and "Topmodel_init pp S_initial outputs = Inr st"
    and "pp_m pp + eps \<noteq> 0"
  shows "\<exists>s. self_S (run_steps st Rs) = Fin s"
proof -
  have c: "consistent st" by (rule init_consistent[OF assms(1,2)])
  obtain S0 where S0: "self_S st = Fin S0"
    using init_S_nonneg[OF c init_fields(7)[OF assms(2)]] by blast
  have M: "self_M st + eps \<noteq> 0" using assms(3) init_fields(6)[OF assms(2)] by simp
  have CA: "self_CatchmentArea st \<noteq> 0" by (rule init_fields(4)[OF assms(2)])
  show ?thesis by (rule run_steps_S_fin[OF S0 M CA])
qed

section \<open>The example, evaluated\<close>

lemma xi_raw_example: "xi_raw pp_example = [[Fin 1, Fin 3, NaN]]"
  using eps_pos
  by (simp add: xi_raw_def pp_example_def wetness_index_def gmul_def gdiv_def gmap_def sqrt16)

lemma percentile_example: "np_percentile [1, 3] 50 = Inr 2"
  by (simp add: np_percentile_def Let_def)

lemma valid_example: "valid_topography pp_example"
  by (simp add: valid_topography_def xi_raw_example) (simp add: pp_example_def cells_def)

lemma init_example: "Topmodel_init pp_example None False = Inr st_example"
proof -
  have raw: "wetness_index (sqrt (real (length (pp_cmask pp_example) * 16)))
       (gmul (pp_flowacc pp_example) (pp_cmask pp_example))
       (gmap radians (gmul (pp_slope pp_example) (pp_cmask pp_example))) = [[Fin 1, Fin 3, NaN]]"
    using xi_raw_example by (simp add: xi_raw_def)
  have pos: "positive_values [[Fin 1, Fin 3, NaN]] = [1, 3]"
    by (simp add: positive_values_def cells_def)
  show ?thesis
    unfolding Topmodel_init_def Let_def raw pos
    by (simp add: percentile_example pp_example_def st_example_def same_shape_def cells_def gmul_def
          full_like_def gmap_def apply_cutoff_def nansum_def local_s_def clamp_negative_def
          nanmean_def)
qed

lemma run_example:
  defines "Qb \<equiv> 432 / 5 * exp (- (3 / 2)) * exp (- (1 / 20) / (1 / 40 + eps))"
  shows "run_timestep_vars st_example 0
    = \<lparr> v_So = Fin (1 / 20), v_Qb = Fin Qb, v_S1 = Fin (1 / 20 + Qb),
         v_s = [[Fin (1 / 20 + Qb + 1 / 80), Fin (1 / 20 + Qb - 1 / 80), NaN]],
         v_qr = [[Fin 0, Fin 0, NaN]], v_Qr = Fin 0, v_S = Fin (1 / 20 + Qb),
         v_fsat = Inr 0, v_mbe = Fin 0 \<rparr>"
proof -
  have pos: "0 < Qb" using eps_pos by (simp add: Qb_def)
  have sub: "subsurfaceflow st_example = Fin Qb"
    using eps_pos by (simp add: subsurfaceflow_def st_example_def Qb_def add_pos_pos)
  have ls: "local_s st_example (Fin (1 / 20 + Qb))
     = [[Fin (1 / 20 + Qb + 1 / 80), Fin (1 / 20 + Qb - 1 / 80), NaN]]"
    by (simp add: local_s_def st_example_def gmap_def)
  have S: "self_S st_example = Fin (1 / 20)" "self_CellArea st_example = 16"
      "self_CatchmentArea st_example = 32"
    by (simp_all add: st_example_def)
  show ?thesis
    unfolding run_timestep_vars_def Let_def sub S
    using pos
    by (simp add: ls clamp_negative_def gmap_def nansum_def cells_def)
qed

section \<open>The example in doubles, evaluated\<close>

lemma fl_depth: "fl (1 / 40) = 3602879701896397 / 2 ^ 57"
  using fl_nearest[of "- 6" "1 / 40" 7205759403792794] by simp

lemma fl_recharge: "fl (1 / 5) = 3602879701896397 / 2 ^ 54"
  using fl_nearest[of "- 3" "1 / 5" 7205759403792794] by simp

lemma depth_plus_eps:
  "dadd (Fin (self_M st_double)) (Fin eps) = Fin (3602879701896429 / 2 ^ 57)"
  using dbl_nearest[of "- 6" "3602879701896397 / 2 ^ 57 + 1 / 2 ^ 52" 7205759403792858]
  by (simp add: st_double_def fl_depth eps_def)

lemma underflow_to_zero:
  assumes "28 \<le> S" and "S \<le> 45"
  shows "subsurfaceflow_dbl (st_double \<lparr> self_S := Fin S \<rparr>) = Fin 0"
proof -
  define t :: real where "t = 3602879701896429 / 2 ^ 57"
  define y where "y = fl (- (S / t))"
  have t: "dadd (Fin (self_M (st_double \<lparr> self_S := Fin S \<rparr>))) (Fin eps) = Fin t"
    using depth_plus_eps by (simp add: t_def)
  have t0: "t \<noteq> 0" by (simp add: t_def)
  have lo: "- 2000 \<le> - (S / t)" and hi: "- (S / t) \<le> - 1100"
    using assms by (simp_all add: t_def field_simps)
  have f1: "fl (- 1100) = - 1100"
    using fl_nearest[of 10 "- 1100" "- 1100 * 2 ^ 42"] by simp
  have f2: "fl (- 2000) = - 2000"
    using fl_nearest[of 10 "- 2000" "- 2000 * 2 ^ 42"] by simp
  have y: "- 2000 \<le> y" "y \<le> - 1100"
    using fl_mono[OF lo] fl_mono[OF hi] by (simp_all add: f1 f2 y_def)
  then have "\<bar>fl (- (S / t))\<bar> \<le> 2 ^ 12" by (simp add: y_def)
  then have d: "dbl (- (S / t)) = Fin y" unfolding y_def by (rule dbl_small)
  have "exp y < 2 powr (- 1075)" by (rule exp_underflow[OF y(2)])
  moreover have "0 \<le> exp y" by simp
  ultimately have "fl (exp y) = 0" by (intro fl_underflow)
  then have e: "dbl (exp y) = Fin 0" by (simp add: dbl_def)
  show ?thesis
    unfolding subsurfaceflow_dbl_def t
    using t0 by (simp add: d e dbl_0)
qed

lemma baseflow_double: "subsurfaceflow_dbl st_double = Fin (1 / 32)"
proof -
  have t: "dadd (Fin (self_M st_double)) (Fin eps) = Fin (3602879701896429 / 2 ^ 57)"
    by (rule depth_plus_eps)
  show ?thesis
    unfolding subsurfaceflow_dbl_def t
    using dbl_nearest[of "- 5" "1 / 32" "2 ^ 52"]
    by (simp add: st_double_def fl_depth dbl_1 dbl_0)
qed

lemma provisional_double:
  "dsub (dadd (self_S st_double) (subsurfaceflow_dbl st_double)) (Fin R_double)
     = Fin (- 6079859496950170 / 2 ^ 55)"
  unfolding baseflow_double
  using dbl_nearest[of "- 5" "1 / 32" "2 ^ 52"]
    dbl_nearest[of "- 3" "1 / 32 - R_double" "- 6079859496950170"]
  by (simp add: st_double_def fl_depth R_double_def fl_recharge)

lemma local_double:
  "local_s_dbl st_double (Fin (- 6079859496950170 / 2 ^ 55))
     = [[Fin (- 6980579422424269 / 2 ^ 55), Fin (- 6980579422424269 / 2 ^ 55),
         Fin (- 8556839292003943 / 2 ^ 56)]]"
  using dbl_nearest[of 0 "- 1" "- (2 ^ 52)"]
    dbl_nearest[of 1 2 "2 ^ 52"]
    dbl_nearest[of "- 6" "- (3602879701896397 / 2 ^ 57)" "- 7205759403792794"]
    dbl_nearest[of "- 5" "3602879701896397 / 2 ^ 57 * 2" "7205759403792794"]
    dbl_nearest[of "- 3" "- 6079859496950170 / 2 ^ 55 + - (3602879701896397 / 2 ^ 57)"
      "- 6980579422424269"]
    dbl_nearest[of "- 4" "- 6079859496950170 / 2 ^ 55 + 7205759403792794 / 2 ^ 57"
      "- 8556839292003943"]
  by (simp add: local_s_dbl_def gmap_def st_double_def fl_depth)

lemma returnflow_double:
  "ddiv (dmul (nansum_dbl (clamp_negative (gmap uminus
            [[Fin (- 6980579422424269 / 2 ^ 55), Fin (- 6980579422424269 / 2 ^ 55),
              Fin (- 8556839292003943 / 2 ^ 56)]])))
          (Fin (real (self_CellArea st_double))))
        (Fin (real (self_CatchmentArea st_double)))
     = Fin (6079859496950169 / 2 ^ 55)"
  using dbl_nearest[of "- 3" "6980579422424269 / 2 ^ 55" "6980579422424269"]
    dbl_nearest[of "- 2" "6980579422424269 / 2 ^ 55 + 6980579422424269 / 2 ^ 55"
      "6980579422424269"]
    dbl_nearest[of "- 1" "6980579422424269 / 2 ^ 54 + 8556839292003943 / 2 ^ 56"
      "4559894622712627"]
    dbl_nearest[of 3 "4559894622712627 / 2 ^ 53 * 16" "4559894622712627"]
    dbl_nearest[of "- 3" "4559894622712627 / 2 ^ 49 / 48" "6079859496950169"]
  by (simp add: nansum_dbl_def clamp_negative_def gmap_def cells_def st_double_def fl_depth
        st_example_def)

lemma committed_double:
  "dadd (Fin (- 6079859496950170 / 2 ^ 55)) (Fin (6079859496950169 / 2 ^ 55))
     = Fin (- (1 / 2 ^ 55))"
  using dbl_nearest[of "- 55" "- 6079859496950170 / 2 ^ 55 + 6079859496950169 / 2 ^ 55"
      "- (2 ^ 52)"]
  by simp

lemma run_double:
  "v_S (run_timestep_vars_dbl st_double R_double) = Fin (- (1 / 2 ^ 55))"
  unfolding run_timestep_vars_dbl_def Let_def step_vars.select_convs
    provisional_double local_double returnflow_double committed_double ..

lemma consistent_double: "consistent st_double"
  by (simp add: consistent_def area_weighted_mean_def st_double_def fl_depth st_example_def
        nansum_def cells_def gmap_def)

lemma exact_double: "self_S (fst (run_timestep st_double R_double)) = Fin 0"
  using eps_pos
  by (simp add: run_timestep_def run_timestep_vars_def Let_def subsurfaceflow_def local_s_def
        clamp_negative_def gmap_def nansum_def cells_def st_double_def fl_depth st_example_def
        R_double_def fl_recharge)

section \<open>The claims\<close>

text \<open>
  Claim C1. From a state \<open>S_prev\<close> and a recharge \<open>R\<close>, \<^verbatim>\<open>run_timestep\<close> computes the
  baseflow from the state before the update, \<open>Qb = Qo * exp (- S_prev / (M + eps))\<close>,
  then the provisional state \<open>S' = S_prev + Qb - R\<close>, then the return flow of each
  cell that carries an index, \<open>max 0 (- (S' + M * (X - xi_i)))\<close>, then \<open>Qr\<close>, the sum of
  the return flows weighted by the cell area and divided by the catchment area, and
  commits \<open>S = S' + Qr\<close>. The state is a number and the two divisors of the
  formulas, \<open>M + eps\<close> and the catchment area, are not zero.
\<close>

theorem run_timestep_order:
  assumes "self_S st = Fin S_prev" and "self_M st + eps \<noteq> 0" and "self_CatchmentArea st \<noteq> 0"
  shows "let Qb = self_Qo st * exp (- S_prev / (self_M st + eps));
             S' = S_prev + Qb - R;
             qr = gmap (\<lambda>x. case x of NaN \<Rightarrow> NaN
                          | Fin xi_i \<Rightarrow> Fin (max 0 (- (S' + self_M st * (self_X st - xi_i)))))
                       (self_xi st);
             Qr = (\<Sum>q\<leftarrow>fin_values (cells qr). q * real (self_CellArea st))
                    / real (self_CatchmentArea st);
             v = run_timestep_vars st R
         in v_So v = Fin S_prev \<and> v_Qb v = Fin Qb \<and> v_S1 v = Fin S' \<and> v_qr v = qr \<and>
            v_Qr v = Fin Qr \<and> v_S v = Fin (S' + Qr) \<and>
            self_qr (fst (run_timestep st R)) = qr \<and>
            self_S (fst (run_timestep st R)) = Fin (S' + Qr)"
proof -
  have Qb: "subsurfaceflow st = Fin (self_Qo st * exp (- S_prev / (self_M st + eps)))"
    using assms(1,2) by (simp add: subsurfaceflow_def)
  show ?thesis
    using assms(3)
    by (simp add: run_timestep_def run_timestep_vars_def Let_def assms(1) Qb returnflow_field
          nansum_def sum_list_mult_const)
qed

theorem run_timestep_order_witness:
  "self_S st_example = Fin (1 / 20) \<and> self_M st_example + eps \<noteq> 0 \<and>
   self_CatchmentArea st_example \<noteq> 0 \<and>
   v_Qb (run_timestep_vars st_example 0) = Fin (432 / 5 * exp (- (3 / 2)) * exp (- (1 / 20) / (1 / 40 + eps))) \<and>
   v_S1 (run_timestep_vars st_example 0)
     = Fin (1 / 20 + 432 / 5 * exp (- (3 / 2)) * exp (- (1 / 20) / (1 / 40 + eps)) - 0)"
proof -
  have h: "self_S st_example = Fin (1 / 20)" "self_M st_example + eps \<noteq> 0"
      "self_CatchmentArea st_example \<noteq> 0"
    using eps_pos by (simp_all add: st_example_def)
  from run_timestep_order[OF h, of 0] have
    "v_Qb (run_timestep_vars st_example 0)
       = Fin (self_Qo st_example * exp (- (1 / 20) / (self_M st_example + eps)))"
    "v_S1 (run_timestep_vars st_example 0)
       = Fin (1 / 20 + self_Qo st_example * exp (- (1 / 20) / (self_M st_example + eps)) - 0)"
    by (simp_all add: Let_def)
  then show ?thesis using h by (simp add: st_example_def)
qed

text \<open>
  Claim C2. From every starting state and after every sequence of recharge values, the
  residual that \<^verbatim>\<open>run_timestep\<close> computes at the next step,
  \<open>(S_prev - S_new) - (R - Qb - Qr)\<close>, is zero (exactly, in real arithmetic). The
  starting state is a number and the divisors \<open>M + eps\<close> and the catchment area are
  not zero.
\<close>

theorem mass_balance_residual:
  assumes "self_S st = Fin S0" and "self_M st + eps \<noteq> 0" and "self_CatchmentArea st \<noteq> 0"
  shows "\<exists>S_prev S_new Qb Qr.
           self_S (run_steps st Rs) = Fin S_prev \<and>
           self_S (fst (run_timestep (run_steps st Rs) R)) = Fin S_new \<and>
           v_Qb (run_timestep_vars (run_steps st Rs) R) = Fin Qb \<and>
           v_Qr (run_timestep_vars (run_steps st Rs) R) = Fin Qr \<and>
           v_mbe (run_timestep_vars (run_steps st Rs) R)
             = Fin ((S_prev - S_new) - (R - Qb - Qr)) \<and>
           (S_prev - S_new) - (R - Qb - Qr) = 0"
proof -
  obtain s where s: "self_S (run_steps st Rs) = Fin s"
    using run_steps_S_fin[OF assms] by blast
  have M: "self_M (run_steps st Rs) + eps \<noteq> 0" and CA: "self_CatchmentArea (run_steps st Rs) \<noteq> 0"
    using assms(2,3) by (simp_all add: run_steps_frame)
  show ?thesis
    using s M CA
    by (simp add: run_timestep_def run_timestep_vars_def subsurfaceflow_def Let_def)
qed

theorem mass_balance_residual_witness:
  "self_S st_example = Fin (1 / 20) \<and> self_M st_example + eps \<noteq> 0 \<and>
   self_CatchmentArea st_example \<noteq> 0 \<and>
   v_mbe (run_timestep_vars (run_steps st_example [0, - (1 / 100)]) 3) = Fin 0"
proof -
  have h: "self_S st_example = Fin (1 / 20)" "self_M st_example + eps \<noteq> 0"
      "self_CatchmentArea st_example \<noteq> 0"
    using eps_pos by (simp_all add: st_example_def)
  from mass_balance_residual[OF h, of "[0, - (1 / 100)]" 3] h show ?thesis by auto
qed

text \<open>
  Claim C3. For an object constructed on a valid topography and every \<open>Smean\<close>, the
  area-weighted mean of the local deficit field \<open>local_s Smean\<close> over the cells of the
  catchment is \<open>Smean\<close>, and \<open>X\<close> is the area-weighted mean of the stored index
  \<open>xi\<close>.
\<close>

theorem local_s_area_weighted_mean:
  assumes "valid_topography pp" and "Topmodel_init pp S_initial outputs = Inr st"
  shows "area_weighted_mean st (local_s st (Fin Smean)) = Smean \<and>
         self_X st = area_weighted_mean st (self_xi st)"
  using mean_local_s[OF init_consistent[OF assms]] init_fields(5)[OF assms(2)] by simp

theorem local_s_area_weighted_mean_witness:
  "valid_topography pp_example \<and> Topmodel_init pp_example None False = Inr st_example \<and>
   area_weighted_mean st_example (local_s st_example (Fin 7)) = 7 \<and>
   self_X st_example = area_weighted_mean st_example (self_xi st_example)"
  using local_s_area_weighted_mean[OF valid_example init_example, of 7] valid_example init_example
  by simp

text \<open>
  Claim C4, amended. For an object constructed on a valid topography (with \<open>M + eps\<close>
  not zero) and arithmetic without rounding, the state is a non-negative number after
  construction and after every timestep of every run: the mean return flow \<open>Qr\<close> is at
  least \<open>max 0 (- S')\<close>, so the committed \<open>S' + Qr\<close> is not negative, whatever the
  recharge. (In doubles the bound on \<open>Qr\<close> holds only up to rounding, and a timestep
  can commit a negative state: the counterexample below.)
\<close>

theorem deficit_nonnegative:
  assumes "valid_topography pp" and "Topmodel_init pp S_initial outputs = Inr st"
    and "pp_m pp + eps \<noteq> 0"
  shows "(\<exists>S0. self_S st = Fin S0 \<and> 0 \<le> S0) \<and>
         (\<exists>S' Qr S_new.
            v_S1 (run_timestep_vars (run_steps st Rs) R) = Fin S' \<and>
            v_Qr (run_timestep_vars (run_steps st Rs) R) = Fin Qr \<and>
            max 0 (- S') \<le> Qr \<and>
            self_S (fst (run_timestep (run_steps st Rs) R)) = Fin S_new \<and>
            S_new = S' + Qr \<and> 0 \<le> S_new)"
proof -
  have c: "consistent st" by (rule init_consistent[OF assms(1,2)])
  have init: "\<exists>S0. self_S st = Fin S0 \<and> 0 \<le> S0"
    by (rule init_S_nonneg[OF c init_fields(7)[OF assms(2)]])
  then obtain S0 where S0: "self_S st = Fin S0" by blast
  have M: "self_M st + eps \<noteq> 0" using assms(3) init_fields(6)[OF assms(2)] by simp
  have CA: "self_CatchmentArea st \<noteq> 0" by (rule init_fields(4)[OF assms(2)])
  let ?st = "run_steps st Rs"
  obtain s where s: "self_S ?st = Fin s" using run_steps_S_fin[OF S0 M CA] by blast
  have M': "self_M ?st + eps \<noteq> 0" and CA': "self_CatchmentArea ?st \<noteq> 0"
    using M CA by (simp_all add: run_steps_frame)
  have c': "consistent ?st" by (rule run_steps_consistent[OF c])
  from step_vars_fin[OF s M' CA', of R] obtain s1 where
    v: "v_S1 (run_timestep_vars ?st R) = Fin s1"
       "v_Qr (run_timestep_vars ?st R)
             = Fin (nansum (clamp_negative (gmap uminus (local_s ?st (Fin s1))))
                    * real (self_CellArea ?st) / real (self_CatchmentArea ?st))"
       "self_S (fst (run_timestep ?st R))
             = Fin (s1 + nansum (clamp_negative (gmap uminus (local_s ?st (Fin s1))))
                    * real (self_CellArea ?st) / real (self_CatchmentArea ?st))"
    by blast
  from returnflow_bound[OF c', of s1] v init show ?thesis by auto
qed

theorem deficit_nonnegative_witness:
  "valid_topography pp_example \<and> Topmodel_init pp_example None False = Inr st_example \<and>
   pp_m pp_example + eps \<noteq> 0 \<and>
   (\<exists>S0. self_S st_example = Fin S0 \<and> 0 \<le> S0) \<and>
   (\<exists>S_new. self_S (fst (run_timestep (run_steps st_example [0, 1 / 10]) 1000)) = Fin S_new \<and>
             0 \<le> S_new)"
proof -
  have h: "pp_m pp_example + eps \<noteq> 0"
    using eps_pos by (simp add: pp_example_def)
  from deficit_nonnegative[OF valid_example init_example h, of "[0, 1 / 10]" 1000]
  show ?thesis using valid_example init_example h by blast
qed

text \<open>
  In doubles the state can become negative. The object \<open>st_double\<close> has three cells
  with the indices 7, 7 and 4 and their mean \<open>X = 6\<close>, the depth \<^verbatim>\<open>0.025\<close>,
  \<open>Qo = 0.03125\<close> and the state \<open>S = 0\<close>. With the recharge \<^verbatim>\<open>0.2\<close> the timestep
  computes \<open>Qb = 0.03125\<close>, \<open>S' = - 0.16875\<close>, the local deficits \<open>- 0.19375\<close>,
  \<open>- 0.19375\<close> and \<open>- 0.11875000000000001\<close>, their negated sum \<open>0.50625\<close> and
  \<open>Qr = 0.16874999999999998\<close>, one unit in the last place below \<open>- S'\<close>; it commits
  \<open>S = S' + Qr = - 2 ^ (- 55)\<close>, about \<open>- 2.8e-17\<close>. Without rounding the same
  timestep commits \<open>S = 0\<close>.
\<close>

theorem deficit_rounding_counterexample:
  "consistent st_double \<and> self_S st_double = Fin 0 \<and>
   self_S (fst (run_timestep_dbl st_double R_double)) = Fin (- (1 / 2 ^ 55)) \<and>
   flt (self_S (fst (run_timestep_dbl st_double R_double))) (Fin 0) \<and>
   self_S (fst (run_timestep st_double R_double)) = Fin 0"
proof -
  have "self_S (fst (run_timestep_dbl st_double R_double))
          = v_S (run_timestep_vars_dbl st_double R_double)"
    by (simp add: run_timestep_dbl_def Let_def)
  then have s: "self_S (fst (run_timestep_dbl st_double R_double)) = Fin (- (1 / 2 ^ 55))"
    by (simp only: run_double)
  have "self_S st_double = Fin 0" by (simp add: st_double_def)
  then show ?thesis using consistent_double exact_double by (simp add: s)
qed

text \<open>
  Claim C5. The dictionary \<^verbatim>\<open>run_timestep\<close> returns has exactly the three items
  \<^verbatim>\<open>baseflow\<close> (\<open>Qb\<close> times 1000), \<^verbatim>\<open>water_closure\<close> (the residual times 1000) and
  \<^verbatim>\<open>saturated_area\<close>, which carries the updated mean deficit \<open>S\<close>; the saturated
  fraction and the return-flow field are not in it. (With a catchment area of zero the
  call raises instead of returning; no constructed object has one.)
\<close>

theorem run_timestep_record:
  assumes "self_CatchmentArea st \<noteq> 0"
  shows "snd (run_timestep st R)
           = Inr [(''baseflow'', v_Qb (run_timestep_vars st R) * Fin 1000),
                  (''water_closure'', v_mbe (run_timestep_vars st R) * Fin 1000),
                  (''saturated_area'', self_S (fst (run_timestep st R)))]
         \<and> self_S (fst (run_timestep st R)) = v_S (run_timestep_vars st R)"
  using assms by (simp add: run_timestep_def run_timestep_vars_def Let_def)

theorem run_timestep_record_witness:
  "self_CatchmentArea st_example \<noteq> 0 \<and>
   snd (run_timestep st_example 0)
     = Inr [(''baseflow'',
             Fin (432 / 5 * exp (- (3 / 2)) * exp (- (1 / 20) / (1 / 40 + eps))) * Fin 1000),
            (''water_closure'', Fin 0 * Fin 1000),
            (''saturated_area'',
             Fin (1 / 20 + 432 / 5 * exp (- (3 / 2)) * exp (- (1 / 20) / (1 / 40 + eps))))] \<and>
   v_fsat (run_timestep_vars st_example 0) = Inr 0"
proof -
  have h: "self_CatchmentArea st_example \<noteq> 0" by (simp add: st_example_def)
  from run_timestep_record[OF h, of 0] h show ?thesis
    unfolding run_example by simp
qed

text \<open>
  Claim C6, amended. With a mask that has no cell of the catchment the constructor
  returns no object: it fails with the first exception on its way, the \<^verbatim>\<open>ValueError\<close>
  or \<^verbatim>\<open>IndexError\<close> of the array operations and \<^verbatim>\<open>np.percentile\<close>, or the
  \<^verbatim>\<open>ZeroDivisionError\<close> of \<^verbatim>\<open>1.0 / self.CatchmentArea\<close>. It is never a
  \<^verbatim>\<open>ConfigurationError\<close>.
\<close>

theorem no_active_cell_fails:
  assumes "Fin 1 \<notin> set (cells (pp_cmask pp))"
  shows "Topmodel_init pp S_initial outputs = Inl ValueError \<or>
         Topmodel_init pp S_initial outputs = Inl IndexError \<or>
         Topmodel_init pp S_initial outputs = Inl ZeroDivisionError"
proof -
  have "filter (\<lambda>c. c = Fin 1) (cells (pp_cmask pp)) = []"
    using assms by (auto simp: filter_empty_conv)
  then show ?thesis
    using np_percentile_errors
    by (auto simp: Topmodel_init_def Let_def split: sum.splits)
qed

theorem no_active_cell_fails_witness:
  "Fin 1 \<notin> set (cells (pp_cmask pp_no_active)) \<and>
   (Topmodel_init pp_no_active None False = Inl ValueError \<or>
    Topmodel_init pp_no_active None False = Inl IndexError \<or>
    Topmodel_init pp_no_active None False = Inl ZeroDivisionError)"
proof -
  have h: "Fin 1 \<notin> set (cells (pp_cmask pp_no_active))"
    by (simp add: pp_no_active_def cells_def)
  from no_active_cell_fails[OF h] h show ?thesis by blast
qed

text \<open>
  On the example with an all-\<open>NaN\<close> mask the constructor fails in \<^verbatim>\<open>np.percentile\<close>,
  on the empty sample of positive indices, which is not a \<^verbatim>\<open>ConfigurationError\<close>.
\<close>

theorem no_active_cell_counterexample:
  "Fin 1 \<notin> set (cells (pp_cmask pp_no_active)) \<and>
   Topmodel_init pp_no_active None False = Inl IndexError \<and>
   Topmodel_init pp_no_active None False \<noteq> Inl ConfigurationError"
proof -
  have "wetness_index (sqrt (real (length (pp_cmask pp_no_active) * 16)))
          (gmul (pp_flowacc pp_no_active) (pp_cmask pp_no_active))
          (gmap radians (gmul (pp_slope pp_no_active) (pp_cmask pp_no_active)))
        = [[NaN, NaN, NaN]]"
    by (simp add: pp_no_active_def pp_example_def wetness_index_def gmul_def gdiv_def gmap_def)
  moreover have "positive_values [[NaN, NaN, NaN]] = []"
    by (simp add: positive_values_def cells_def)
  ultimately have "Topmodel_init pp_no_active None False = Inl IndexError"
    unfolding Topmodel_init_def Let_def
    by (simp add: np_percentile_def pp_no_active_def pp_example_def same_shape_def)
  then show ?thesis by (simp add: pp_no_active_def cells_def)
qed

text \<open>
  Claim C7, amended. When \<open>Qo\<close> is positive and the depth \<open>M\<close> is not negative, the
  baseflow does not increase with the state: for \<open>S1 < S2\<close>, the doubles \<open>Qb1\<close> and
  \<open>Qb2\<close> that \<^verbatim>\<open>subsurfaceflow\<close> computes at \<open>S1\<close> and at \<open>S2\<close> satisfy
  \<open>Qb2 \<le> Qb1\<close>. The decrease is strict for arithmetic without rounding, not for
  doubles.
\<close>

theorem baseflow_nonincreasing:
  assumes "0 < self_Qo st" and "0 \<le> self_M st" and "S1 < S2"
    and "subsurfaceflow_dbl (st \<lparr> self_S := Fin S1 \<rparr>) = Fin Qb1"
    and "subsurfaceflow_dbl (st \<lparr> self_S := Fin S2 \<rparr>) = Fin Qb2"
  shows "Qb2 \<le> Qb1 \<and>
         flt (subsurfaceflow (st \<lparr> self_S := Fin S2 \<rparr>))
             (subsurfaceflow (st \<lparr> self_S := Fin S1 \<rparr>))"
proof
  let ?t = "fl (self_M st + eps)"
  have q1: "Qb1 = fl (self_Qo st * fl (exp (fl (- S1 / ?t))))"
    using subsurfaceflow_dbl_Fin(1)[OF assms(4)] by simp
  have q2: "Qb2 = fl (self_Qo st * fl (exp (fl (- S2 / ?t))))"
    using subsurfaceflow_dbl_Fin(1)[OF assms(5)] by simp
  have "eps \<le> self_M st + eps" using assms(2) by simp
  then have "fl eps \<le> ?t" by (rule fl_mono)
  then have t: "0 < ?t" using eps_pos by (simp add: fl_eps)
  have "- S2 / ?t \<le> - S1 / ?t"
    using assms(3) t by (simp add: divide_right_mono)
  then have "fl (- S2 / ?t) \<le> fl (- S1 / ?t)" by (rule fl_mono)
  then have "exp (fl (- S2 / ?t)) \<le> exp (fl (- S1 / ?t))" by simp
  then have "fl (exp (fl (- S2 / ?t))) \<le> fl (exp (fl (- S1 / ?t)))" by (rule fl_mono)
  then have "self_Qo st * fl (exp (fl (- S2 / ?t))) \<le> self_Qo st * fl (exp (fl (- S1 / ?t)))"
    using assms(1) by (simp add: mult_left_mono)
  then show "Qb2 \<le> Qb1" unfolding q1 q2 by (rule fl_mono)
next
  have pos: "0 < self_M st + eps" using assms(2) eps_pos by simp
  then have "- S2 / (self_M st + eps) < - S1 / (self_M st + eps)"
    using assms(3) by (simp add: divide_strict_right_mono)
  then show "flt (subsurfaceflow (st \<lparr> self_S := Fin S2 \<rparr>))
                 (subsurfaceflow (st \<lparr> self_S := Fin S1 \<rparr>))"
    using assms(1) pos by (simp add: subsurfaceflow_def)
qed

theorem baseflow_nonincreasing_witness:
  "0 < self_Qo st_double \<and> 0 \<le> self_M st_double \<and> (30::real) < 40 \<and>
   subsurfaceflow_dbl (st_double \<lparr> self_S := Fin 30 \<rparr>) = Fin 0 \<and>
   subsurfaceflow_dbl (st_double \<lparr> self_S := Fin 40 \<rparr>) = Fin 0 \<and>
   (0::real) \<le> 0 \<and>
   flt (subsurfaceflow (st_double \<lparr> self_S := Fin 40 \<rparr>))
       (subsurfaceflow (st_double \<lparr> self_S := Fin 30 \<rparr>))"
proof -
  have h: "0 < self_Qo st_double" "0 \<le> self_M st_double" "(30::real) < 40"
    by (simp_all add: st_double_def fl_depth)
  have u30: "subsurfaceflow_dbl (st_double \<lparr> self_S := Fin 30 \<rparr>) = Fin 0"
    by (rule underflow_to_zero) simp_all
  have u40: "subsurfaceflow_dbl (st_double \<lparr> self_S := Fin 40 \<rparr>) = Fin 0"
    by (rule underflow_to_zero) simp_all
  from baseflow_nonincreasing[OF h u30 u40] h u30 u40 show ?thesis by simp
qed

text \<open>
  In doubles the decrease is not strict. With the depth \<^verbatim>\<open>0.025\<close> the exponent
  \<open>- S / (M + eps)\<close> is \<open>- 1200\<close> at \<open>S = 30\<close> and \<open>- 1600\<close> at \<open>S = 40\<close>, and
  \<^verbatim>\<open>np.exp\<close> underflows to \<open>0\<close> at both: the two baseflows are equal.
\<close>

theorem baseflow_underflow_counterexample:
  "0 < self_Qo st_double \<and> 0 \<le> self_M st_double \<and> (30::real) < 40 \<and>
   subsurfaceflow_dbl (st_double \<lparr> self_S := Fin 30 \<rparr>) = Fin 0 \<and>
   subsurfaceflow_dbl (st_double \<lparr> self_S := Fin 40 \<rparr>) = Fin 0 \<and>
   \<not> flt (subsurfaceflow_dbl (st_double \<lparr> self_S := Fin 40 \<rparr>))
         (subsurfaceflow_dbl (st_double \<lparr> self_S := Fin 30 \<rparr>))"
proof -
  have h: "0 < self_Qo st_double" "0 \<le> self_M st_double" "(30::real) < 40"
    by (simp_all add: st_double_def fl_depth)
  have u30: "subsurfaceflow_dbl (st_double \<lparr> self_S := Fin 30 \<rparr>) = Fin 0"
    by (rule underflow_to_zero) simp_all
  have u40: "subsurfaceflow_dbl (st_double \<lparr> self_S := Fin 40 \<rparr>) = Fin 0"
    by (rule underflow_to_zero) simp_all
  show ?thesis using h by (simp add: u30 u40)
qed

text \<open>
  Claim C8. After construction every cell of the stored index \<open>xi\<close> that carries a
  number is at most \<open>clim\<close>, the percentile \<^verbatim>\<open>twi_cutoff\<close> of the strictly positive
  values of the index before the cutoff; no timestep changes \<open>xi\<close>.
\<close>

theorem cutoff_enforced:
  assumes "Topmodel_init pp S_initial outputs = Inr st"
  shows "\<exists>clim. np_percentile (positive_values (xi_raw pp)) (pp_twi_cutoff pp) = Inr clim \<and>
           list_all (\<lambda>x. x = NaN \<or> fle x (Fin clim)) (cells (self_xi st)) \<and>
           self_xi (run_steps st Rs) = self_xi st"
proof -
  from init_fields(1)[OF assms] obtain clim where
    "np_percentile (positive_values (xi_raw pp)) (pp_twi_cutoff pp) = Inr clim"
    "self_xi st = apply_cutoff clim (xi_raw pp)" by blast
  then show ?thesis using cutoff_cells[of clim "xi_raw pp"] by (simp add: run_steps_frame)
qed

theorem cutoff_enforced_witness:
  "Topmodel_init pp_example None False = Inr st_example \<and>
   np_percentile (positive_values (xi_raw pp_example)) (pp_twi_cutoff pp_example) = Inr 2 \<and>
   list_all (\<lambda>x. x = NaN \<or> fle x (Fin 2)) (cells (self_xi st_example)) \<and>
   self_xi (run_steps st_example [0, 1]) = self_xi st_example"
proof -
  have p: "np_percentile (positive_values (xi_raw pp_example)) (pp_twi_cutoff pp_example) = Inr 2"
    by (simp add: xi_raw_example positive_values_def cells_def)
       (simp add: pp_example_def percentile_example)
  from cutoff_enforced[OF init_example, of "[0, 1]"] show ?thesis
    unfolding p using init_example by auto
qed

text \<open>
  Claim C9. For an object constructed on a valid topography (with \<open>M + eps\<close> not zero),
  at every step of every run, from the state \<open>S_prev\<close> and the recharge \<open>R\<close>: the
  saturated fraction \<^verbatim>\<open>run_timestep\<close> computes is the number of cells of the
  catchment whose local deficit \<open>S' + M * (X - xi_i)\<close>, from the provisional state
  \<open>S' = S_prev + Qb - R\<close>, is at most 0, divided by the number of cells of the
  catchment (the cells where the mask is 1, of which there is at least one). It lies
  between 0 and 1; it is 1 when \<open>S'\<close> is so low that \<open>S' \<le> M * (xi_i - X)\<close> at every
  cell, and 0 when \<open>S'\<close> is so large that \<open>M * (xi_i - X) < S'\<close> at every cell.
\<close>

theorem saturated_fraction_bounds:
  assumes "valid_topography pp" and "Topmodel_init pp S_initial outputs = Inr st"
    and "pp_m pp + eps \<noteq> 0"
  shows "\<exists>S_prev.
           self_S (run_steps st Rs) = Fin S_prev \<and>
           (let S' = S_prev + self_Qo st * exp (- S_prev / (self_M st + eps)) - R;
                active = fin_values (cells (self_xi st));
                saturated = filter (\<lambda>xi_i. S' + self_M st * (self_X st - xi_i) \<le> 0) active;
                fsat = real (length saturated) / real (length active)
            in v_fsat (run_timestep_vars (run_steps st Rs) R) = Inr fsat \<and>
               length active = length (filter (\<lambda>c. c = Fin 1) (cells (pp_cmask pp))) \<and>
               0 < length active \<and> 0 \<le> fsat \<and> fsat \<le> 1 \<and>
               ((\<forall>xi_i \<in> set active. S' \<le> self_M st * (xi_i - self_X st)) \<longrightarrow> fsat = 1) \<and>
               ((\<forall>xi_i \<in> set active. self_M st * (xi_i - self_X st) < S') \<longrightarrow> fsat = 0))"
proof -
  let ?st = "run_steps st Rs"
  obtain S_prev where S: "self_S ?st = Fin S_prev"
    using init_state_number[OF assms] by blast
  define S' where "S' = S_prev + self_Qo st * exp (- S_prev / (self_M st + eps)) - R"
  let ?vs = "fin_values (cells (self_xi st))"
  let ?sat = "filter (\<lambda>xi_i. S' + self_M st * (self_X st - xi_i) \<le> 0) ?vs"
  let ?n = "length ?vs"
  let ?A = "self_CellArea st"
  have c: "consistent st" by (rule init_consistent[OF assms(1,2)])
  note CA = consistentD(1)[OF c] and n = consistentD(2)[OF c] and A = consistentD(3)[OF c]
  have M: "self_M st + eps \<noteq> 0" using assms(3) init_fields(6)[OF assms(2)] by simp
  have mask: "?n = length (filter (\<lambda>c. c = Fin 1) (cells (pp_cmask pp)))"
    using init_fields(3)[OF assms(2)] CA A by simp
  have S1: "self_S ?st + subsurfaceflow ?st - Fin R = Fin S'"
    using M by (simp add: S subsurfaceflow_def run_steps_frame S'_def)
  have "v_fsat (run_timestep_vars ?st R)
          = Inr (real (length (filter (\<lambda>c. fle c (Fin 0))
                   (cells (local_s ?st (Fin S')))) * ?A) / real (?n * ?A))"
    using CA n A by (simp add: run_timestep_vars_def Let_def run_steps_frame S1)
  also have "length (filter (\<lambda>c. fle c (Fin 0)) (cells (local_s ?st (Fin S')))) = length ?sat"
    unfolding local_s_def cells_gmap run_steps_frame by (rule count_saturated)
  also have "real (length ?sat * ?A) / real (?n * ?A) = real (length ?sat) / real ?n"
    using A by simp
  finally have fsat: "v_fsat (run_timestep_vars ?st R) = Inr (real (length ?sat) / real ?n)" .
  have le: "length ?sat \<le> ?n" by simp
  have b: "0 \<le> real (length ?sat) / real ?n" "real (length ?sat) / real ?n \<le> 1"
    using le n by simp_all
  have one: "real (length ?sat) / real ?n = 1"
    if "\<forall>xi_i \<in> set ?vs. S' \<le> self_M st * (xi_i - self_X st)"
  proof -
    have "?sat = ?vs" using that by (auto simp: algebra_simps intro!: filter_True)
    then show ?thesis using n by simp
  qed
  have zero: "real (length ?sat) / real ?n = 0"
    if "\<forall>xi_i \<in> set ?vs. self_M st * (xi_i - self_X st) < S'"
  proof -
    have "?sat = []" using that by (auto simp: filter_empty_conv algebra_simps)
    then show ?thesis by simp
  qed
  have "v_fsat (run_timestep_vars ?st R) = Inr (real (length ?sat) / real ?n) \<and>
        ?n = length (filter (\<lambda>c. c = Fin 1) (cells (pp_cmask pp))) \<and>
        0 < ?n \<and> 0 \<le> real (length ?sat) / real ?n \<and> real (length ?sat) / real ?n \<le> 1 \<and>
        ((\<forall>xi_i \<in> set ?vs. S' \<le> self_M st * (xi_i - self_X st))
           \<longrightarrow> real (length ?sat) / real ?n = 1) \<and>
        ((\<forall>xi_i \<in> set ?vs. self_M st * (xi_i - self_X st) < S')
           \<longrightarrow> real (length ?sat) / real ?n = 0)"
    using fsat mask n b one zero by blast
  then show ?thesis
    unfolding Let_def S'_def using S by blast
qed

theorem saturated_fraction_bounds_witness:
  "valid_topography pp_example \<and> Topmodel_init pp_example None False = Inr st_example \<and>
   pp_m pp_example + eps \<noteq> 0 \<and>
   v_fsat (run_timestep_vars (run_steps st_example []) 0) = Inr 0 \<and>
   v_fsat (run_timestep_vars (run_steps st_example [])
             (1 / 20 + self_Qo st_example * exp (- (1 / 20) / (self_M st_example + eps))))
     = Inr (1 / 2) \<and>
   v_fsat (run_timestep_vars (run_steps st_example []) 1000) = Inr 1"
proof -
  define Q where "Q = self_Qo st_example * exp (- (1 / 20) / (self_M st_example + eps))"
  have h: "pp_m pp_example + eps \<noteq> 0"
    using eps_pos by (simp add: pp_example_def)
  have Qpos: "0 < Q" by (simp add: Q_def st_example_def)
  have "exp (- (1 / 20) / (self_M st_example + eps)) \<le> 1"
    using eps_pos by (simp add: st_example_def add_pos_pos)
  moreover have "self_Qo st_example \<le> 432 / 5" by (simp add: st_example_def)
  moreover have "0 \<le> self_Qo st_example" by (simp add: st_example_def)
  ultimately have "self_Qo st_example * exp (- (1 / 20) / (self_M st_example + eps)) \<le> 432 / 5 * 1"
    by (intro mult_mono) simp_all
  then have Qle: "Q \<le> 432 / 5" by (simp add: Q_def)
  have sel: "self_S st_example = Fin (1 / 20)" "self_M st_example = 1 / 40"
      "self_X st_example = 3 / 2" "fin_values (cells (self_xi st_example)) = [1, 2]"
    by (simp_all add: st_example_def cells_def)
  have fs: "v_fsat (run_timestep_vars (run_steps st_example []) R)
              = Inr (real (length (filter (\<lambda>x. 1 / 20 + Q - R + 1 / 40 * (3 / 2 - x) \<le> 0) [1, 2]))
                     / real (length [1, 2 :: real]))" for R
  proof -
    from saturated_fraction_bounds[OF valid_example init_example h, of "[]" R]
    obtain S_prev where S: "self_S (run_steps st_example []) = Fin S_prev"
      and f: "v_fsat (run_timestep_vars (run_steps st_example []) R)
          = Inr (real (length (filter (\<lambda>xi_i. S_prev + self_Qo st_example
                    * exp (- S_prev / (self_M st_example + eps)) - R
                    + self_M st_example * (self_X st_example - xi_i) \<le> 0)
                  (fin_values (cells (self_xi st_example)))))
                / real (length (fin_values (cells (self_xi st_example)))))"
      unfolding Let_def by blast
    have e: "S_prev = 1 / 20" using S sel(1) by simp
    show ?thesis using f unfolding e Q_def sel .
  qed
  have "v_fsat (run_timestep_vars (run_steps st_example []) 0) = Inr 0"
    unfolding fs using Qpos by simp
  moreover have "v_fsat (run_timestep_vars (run_steps st_example []) (1 / 20 + Q)) = Inr (1 / 2)"
    unfolding fs by simp
  moreover have "v_fsat (run_timestep_vars (run_steps st_example []) 1000) = Inr 1"
    unfolding fs using Qle by simp
  ultimately show ?thesis
    using valid_example init_example h unfolding Q_def by simp
qed

text \<open>
  Claim C10. An explicit \<open>S_initial = 0.0\<close> is not used: the constructor returns what
  it returns without the argument, which is what it returns for \<open>S_initial = pp['so']\<close>.
\<close>

theorem S_initial_falsy_ignored:
  "Topmodel_init pp (Some 0) outputs = Topmodel_init pp None outputs \<and>
   Topmodel_init pp (Some 0) outputs = Topmodel_init pp (Some (pp_so pp)) outputs"
  by (simp add: Topmodel_init_def)

end
